theory Spec2Isabelle
  imports Complex_Main
begin

section \<open>Python values shared by the two source files\<close>

text \<open>
  Exceptions of the source are values: every function that can raise returns
  \<open>error + 'a\<close> with \<open>Inl\<close> for the exception. Python floats are modelled by
  the reals (rounding and overflow are not modelled), Python ints by \<open>int\<close>.
\<close>

datatype error =
    ValueError string
  | RuntimeError string
  | ZeroDivisionError
  | IndexError
  | KeyError string
  | OverflowError string

fun is_ValueError :: "error + 'a \<Rightarrow> bool" where
  "is_ValueError (Inl (ValueError msg)) = True"
| "is_ValueError r = False"

text \<open>\<open>str(n)\<close> for an integer: decimal digits, with a sign for negative numbers.\<close>

fun str_nat :: "nat \<Rightarrow> string" where
  "str_nat n =
     (if n < 10 then [''0123456789'' ! n]
      else str_nat (n div 10) @ [''0123456789'' ! (n mod 10)])"

declare str_nat.simps [simp del]

definition str_int :: "int \<Rightarrow> string" where
  "str_int i = (if i < 0 then CHR ''-'' # str_nat (nat (- i)) else str_nat (nat i))"

text \<open>\<open>xs[:n]\<close>: \<open>None\<close> keeps the whole list, a negative stop counts from the end.\<close>

definition py_slice_to :: "'a list \<Rightarrow> int option \<Rightarrow> 'a list" where
  "py_slice_to xs stop =
     (case stop of
        None \<Rightarrow> xs
      | Some n \<Rightarrow> if 0 \<le> n then take (nat n) xs else take (nat (int (length xs) + n)) xs)"

section \<open>train\_callbacks.py: RecentCheckpointsCallback\<close>

record RecentCheckpointsCallback =
  save_path :: string
  save_top_k :: int
  saved_checkpoints :: "string list"
  save_every_steps :: int

definition RecentCheckpointsCallback_init :: "string \<Rightarrow> int \<Rightarrow> int \<Rightarrow> RecentCheckpointsCallback" where
  "RecentCheckpointsCallback_init path k every =
     \<lparr>save_path = path, save_top_k = k, saved_checkpoints = [], save_every_steps = every\<rparr>"

text \<open>\<open>os.path.join(a, b)\<close> on two components (POSIX).\<close>

definition os_path_join :: "string \<Rightarrow> string \<Rightarrow> string" where
  "os_path_join a b =
     (if b \<noteq> [] \<and> hd b = CHR ''/'' then b
      else if a = [] \<or> last a = CHR ''/'' then a @ b
      else a @ ''/'' @ b)"

text \<open>\<open>self.filename.format(step=...) + ".ckpt"\<close> with the template of \<open>__init__\<close>.\<close>

definition checkpoint_path :: "RecentCheckpointsCallback \<Rightarrow> int \<Rightarrow> string" where
  "checkpoint_path cb global_step =
     os_path_join (save_path cb) (''checkpoint-step='' @ str_int global_step @ ''.ckpt'')"

text \<open>
  The file system is the set of paths that exist. \<open>trainer.save_checkpoint\<close> creates
  the file; \<open>os.remove\<close> is guarded by \<open>os.path.exists\<close>.
\<close>

definition on_train_batch_end ::
  "RecentCheckpointsCallback \<Rightarrow> int \<Rightarrow> string set \<Rightarrow> error + (RecentCheckpointsCallback \<times> string set)" where
  "on_train_batch_end cb global_step fs =
     (if save_every_steps cb = 0 then Inl ZeroDivisionError
      else if global_step mod save_every_steps cb = 0 then
        (let p = checkpoint_path cb global_step;
             fs1 = insert p fs;
             saved = saved_checkpoints cb @ [p]
         in if int (length saved) > save_top_k cb then
              (case saved of
                 [] \<Rightarrow> Inl IndexError
               | oldest_checkpoint # rest \<Rightarrow>
                   Inr (cb\<lparr>saved_checkpoints := rest\<rparr>,
                        if oldest_checkpoint \<in> fs1 then fs1 - {oldest_checkpoint} else fs1))
            else Inr (cb\<lparr>saved_checkpoints := saved\<rparr>, fs1))
      else Inr (cb, fs))"

text \<open>The training loop calls the hook once per batch, with the trainer's step count.\<close>

fun train_batches ::
  "RecentCheckpointsCallback \<Rightarrow> string set \<Rightarrow> int list \<Rightarrow> error + (RecentCheckpointsCallback \<times> string set)" where
  "train_batches cb fs [] = Inr (cb, fs)"
| "train_batches cb fs (global_step # steps) =
     (case on_train_batch_end cb global_step fs of
        Inl e \<Rightarrow> Inl e
      | Inr (cb', fs') \<Rightarrow> train_batches cb' fs' steps)"

section \<open>model.py: TransformerEncoder\<close>

text \<open>
  A layer is a function of the running output, the attention mask and the key padding
  mask; \<open>layers\<close> is the module list. The loop runs over \<open>self.layers[:output_layer]\<close>.
\<close>

type_synonym ('x, 'm, 'k) encoder_layer = "'x \<Rightarrow> 'm \<Rightarrow> 'k \<Rightarrow> 'x"

definition TransformerEncoder_forward ::
  "('x, 'm, 'k) encoder_layer list \<Rightarrow> 'x \<Rightarrow> 'm \<Rightarrow> 'k \<Rightarrow> int option \<Rightarrow> 'x" where
  "TransformerEncoder_forward layers src src_mask src_key_padding_mask output_layer =
     foldl (\<lambda>output layer. layer output src_mask src_key_padding_mask) src
       (py_slice_to layers output_layer)"

text \<open>
  The specification's reading: the states of a full run, the input first and then the
  state after each layer in order.
\<close>

fun full_run_states :: "('x, 'm, 'k) encoder_layer list \<Rightarrow> 'x \<Rightarrow> 'm \<Rightarrow> 'k \<Rightarrow> 'x list" where
  "full_run_states [] x m k = [x]"
| "full_run_states (layer # rest) x m k = x # full_run_states rest (layer x m k) m k"

section \<open>train\_callbacks.py: VlabelerEvaluateCallback, metric phase and aggregation\<close>

text \<open>
  The collaborators of the metric phase (the reference folder's \<open>rglob\<close>, the TextGrid
  reader, \<open>remove_ignored_phonemes\<close> and the metric classes) live outside the two
  source files; they are the fields of an environment. Each of them may raise.
\<close>

record ('tier, 'acc) evaluate_env =
  rglob :: "string \<Rightarrow> string list"
  textgrid_from_file :: "string \<Rightarrow> error + 'tier list"
  remove_ignored_phonemes :: "string \<Rightarrow> 'tier \<Rightarrow> 'tier"
  metric_update :: "string \<Rightarrow> 'acc \<Rightarrow> 'tier \<Rightarrow> 'tier \<Rightarrow> error + 'acc"
  metric_compute :: "string \<Rightarrow> 'acc \<Rightarrow> error + real"

definition bind_err :: "error + 'a \<Rightarrow> ('a \<Rightarrow> error + 'b) \<Rightarrow> error + 'b" where
  "bind_err r f = (case r of Inl e \<Rightarrow> Inl e | Inr v \<Rightarrow> f v)"

text \<open>\<open>pathlib.Path(p).name\<close>: the last component of the path.\<close>

definition path_name :: "string \<Rightarrow> string" where
  "path_name p = rev (takeWhile (\<lambda>c. c \<noteq> CHR ''/'') (rev p))"

text \<open>\<open>label.textgrid_from_file(f)[-1]\<close>: the last tier, IndexError when there is none.\<close>

definition last_tier :: "('tier, 'acc) evaluate_env \<Rightarrow> string \<Rightarrow> error + 'tier" where
  "last_tier env f =
     bind_err (textgrid_from_file env f)
       (\<lambda>tiers. if tiers = [] then Inl IndexError else Inr (last tiers))"

text \<open>
  \<open>metrics\<close> is the dictionary of the six accumulators, in insertion order.
  \<open>for metric in metrics.values(): metric.update(pred_tier, target_tier)\<close>.
\<close>

fun update_metrics ::
  "('tier, 'acc) evaluate_env \<Rightarrow> (string \<times> 'acc) list \<Rightarrow> 'tier \<Rightarrow> 'tier \<Rightarrow> error + (string \<times> 'acc) list" where
  "update_metrics env [] pred_tier target_tier = Inr []"
| "update_metrics env ((name, metric) # rest) pred_tier target_tier =
     bind_err (metric_update env name metric pred_tier target_tier) (\<lambda>metric'.
     bind_err (update_metrics env rest pred_tier target_tier) (\<lambda>rest'.
     Inr ((name, metric') # rest')))"

text \<open>The loop over the exported prediction files (lines 117 to 129).\<close>

fun metric_phase ::
  "('tier, 'acc) evaluate_env \<Rightarrow> string list \<Rightarrow> (string \<times> 'acc) list \<Rightarrow> error + (string \<times> 'acc) list" where
  "metric_phase env [] metrics = Inr metrics"
| "metric_phase env (pred_file # files) metrics =
     (case rglob env (path_name pred_file) of
        [] \<Rightarrow> metric_phase env files metrics
      | target_file # others \<Rightarrow>
          bind_err (last_tier env pred_file) (\<lambda>pred_tier.
          bind_err (last_tier env target_file) (\<lambda>target_tier.
          bind_err (update_metrics env metrics
                      (remove_ignored_phonemes env [] pred_tier)
                      (remove_ignored_phonemes env [] target_tier)) (\<lambda>metrics'.
          metric_phase env files metrics'))))"

text \<open>Dictionaries with string keys, in insertion order; \<open>d[k]\<close> raises KeyError.\<close>

definition dict_get :: "(string \<times> 'v) list \<Rightarrow> string \<Rightarrow> error + 'v" where
  "dict_get d k = (case map_of d k of None \<Rightarrow> Inl (KeyError k) | Some v \<Rightarrow> Inr v)"

fun dict_set :: "(string \<times> 'v) list \<Rightarrow> string \<Rightarrow> 'v \<Rightarrow> (string \<times> 'v) list" where
  "dict_set [] k v = [(k, v)]"
| "dict_set ((k', v') # rest) k v =
     (if k' = k then (k, v) # rest else (k', v') # dict_set rest k v)"

text \<open>\<open>result = {key: metric.compute() for key, metric in metrics.items()}\<close>\<close>

fun compute_all ::
  "('tier, 'acc) evaluate_env \<Rightarrow> (string \<times> 'acc) list \<Rightarrow> error + (string \<times> real) list" where
  "compute_all env [] = Inr []"
| "compute_all env ((key, metric) # rest) =
     bind_err (metric_compute env key metric) (\<lambda>v.
     bind_err (compute_all env rest) (\<lambda>rest'.
     Inr ((key, v) # rest')))"

text \<open>Lines 131 to 136: the two composites are stored in \<open>result\<close>.\<close>

definition aggregate ::
  "('tier, 'acc) evaluate_env \<Rightarrow> (string \<times> 'acc) list \<Rightarrow> error + (string \<times> real) list" where
  "aggregate env metrics =
     bind_err (compute_all env metrics) (\<lambda>result.
     bind_err (dict_get result ''VlabelerEditRatio10-20ms'') (\<lambda>m10.
     bind_err (dict_get result ''VlabelerEditRatio20-50ms'') (\<lambda>m20.
     bind_err (dict_get result ''VlabelerEditRatio50-100ms'') (\<lambda>m50.
     bind_err (dict_get result ''VlabelerEditRatio100-5000ms'') (\<lambda>m100.
     let vlabeler_loss = m10 * 0.1 + m20 * 0.2 + m50 * 0.3 + m100 * 0.4;
         result1 = dict_set result ''vlabeler_loss'' vlabeler_loss
     in bind_err (dict_get result1 ''BoundaryEditRatioWeighted'') (\<lambda>bew.
        Inr (dict_set result1 ''total'' (vlabeler_loss * 0.5 + bew * 0.5))))))))"

text \<open>The dictionary \<open>metrics\<close> of line 108, from the six fresh accumulators.\<close>

definition metrics_dict :: "'acc \<Rightarrow> 'acc \<Rightarrow> 'acc \<Rightarrow> 'acc \<Rightarrow> 'acc \<Rightarrow> 'acc \<Rightarrow> (string \<times> 'acc) list" where
  "metrics_dict ber berw v10 v20 v50 v100 =
     [(''BoundaryEditRatio'', ber),
      (''BoundaryEditRatioWeighted'', berw),
      (''VlabelerEditRatio10-20ms'', v10),
      (''VlabelerEditRatio20-50ms'', v20),
      (''VlabelerEditRatio50-100ms'', v50),
      (''VlabelerEditRatio100-5000ms'', v100)]"

section \<open>model.py: \_compute\_mask\<close>

text \<open>\<open>int(x)\<close> on a float: truncation towards zero.\<close>

definition py_int :: "real \<Rightarrow> int" where
  "py_int x = (if 0 \<le> x then \<lfloor>x\<rfloor> else \<lceil>x\<rceil>)"

text \<open>
  Tensors of indices and booleans are lists of rows. The two sources of randomness are
  inputs: \<open>u\<close> is the value of \<open>random.random()\<close>, and \<open>multinomial b c n\<close> is the
  draw of \<open>torch.multinomial\<close> for a \<open>b\<close> by \<open>c\<close> tensor of ones and \<open>n\<close> samples:
  for each row the drawn category indices.

  \<open>torch.multinomial\<close> (line 209, sampling without replacement) checks its arguments
  before it draws: it raises RuntimeError when the number of samples is not positive,
  and when it exceeds the number of categories. \<open>torch_multinomial\<close> is the call with
  these checks. \<open>multinomial_returns\<close> is the contract of a call that returns: the
  number of samples is accepted, and every row holds that many distinct categories.
\<close>

definition torch_multinomial ::
  "(nat \<Rightarrow> nat \<Rightarrow> int \<Rightarrow> nat list list) \<Rightarrow> nat \<Rightarrow> nat \<Rightarrow> int \<Rightarrow> error + nat list list" where
  "torch_multinomial multinomial batch_size categories num_samples =
     (if num_samples \<le> 0 then Inl (RuntimeError ''cannot sample n_sample <= 0 samples'')
      else if int categories < num_samples then
        Inl (RuntimeError ''cannot sample n_sample > prob_dist.size(-1) samples without replacement'')
      else Inr (multinomial batch_size categories num_samples))"

definition multinomial_returns :: "nat \<Rightarrow> nat \<Rightarrow> int \<Rightarrow> nat list list \<Rightarrow> bool" where
  "multinomial_returns batch_size categories num_samples draws \<longleftrightarrow>
     0 < num_samples \<and> num_samples \<le> int categories
     \<and> length draws = batch_size
     \<and> (\<forall>row \<in> set draws.
          int (length row) = num_samples \<and> distinct row \<and> (\<forall>s \<in> set row. s < categories))"

text \<open>
  \<open>mask_indices.unsqueeze(dim=-1).expand((b, n, l)).reshape(b, n * l)\<close>: every index
  repeated \<open>l\<close> times.
\<close>

definition expand_indices :: "nat \<Rightarrow> nat list list \<Rightarrow> nat list list" where
  "expand_indices mask_length mask_indices =
     map (\<lambda>row. concat (map (replicate mask_length) row)) mask_indices"

text \<open>
  \<open>torch.arange(l)[None, None, :].expand((b, n, l)).reshape(b, n * l)\<close>: the offsets
  \<open>0 .. l - 1\<close>, \<open>n\<close> times, in each of the \<open>b\<close> rows.
\<close>

definition expand_offsets :: "nat \<Rightarrow> nat \<Rightarrow> nat \<Rightarrow> nat list list" where
  "expand_offsets batch_size num_masked_spans mask_length =
     replicate batch_size (concat (replicate num_masked_spans [0..<mask_length]))"

definition tensor_add :: "nat list list \<Rightarrow> nat list list \<Rightarrow> nat list list" where
  "tensor_add a b = map2 (map2 (+)) a b"

text \<open>
  \<open>mask.scatter(1, mask_idxs, True)\<close>: row by row, every listed position becomes
  True; a position outside the row is an error of the library.
\<close>

fun scatter_row :: "bool list \<Rightarrow> nat list \<Rightarrow> error + bool list" where
  "scatter_row row [] = Inr row"
| "scatter_row row (j # js) =
     (if j < length row then scatter_row (row[j := True]) js
      else Inl (RuntimeError ''index out of bounds''))"

fun scatter_true :: "bool list list \<Rightarrow> nat list list \<Rightarrow> error + bool list list" where
  "scatter_true [] idxs = (if idxs = [] then Inr [] else Inl (RuntimeError ''index shape''))"
| "scatter_true (row # rows) [] = Inr (row # rows)"
| "scatter_true (row # rows) (idx # idxs) =
     bind_err (scatter_row row idx) (\<lambda>row'.
     bind_err (scatter_true rows idxs) (\<lambda>rows'.
     Inr (row' # rows')))"

text \<open>Lines 193 to 198: the number of spans, after the clamp.\<close>

definition num_masked_spans :: "real \<Rightarrow> int \<Rightarrow> int \<Rightarrow> int \<Rightarrow> real \<Rightarrow> int" where
  "num_masked_spans mask_prob sequence_length mask_length min_masks u =
     (let n = py_int (mask_prob * real_of_int sequence_length / real_of_int mask_length + u);
          n = max n min_masks
      in if n * mask_length > sequence_length then sequence_length div mask_length else n)"

definition compute_mask ::
  "nat \<times> int \<Rightarrow> real \<Rightarrow> int \<Rightarrow> int \<Rightarrow> real \<Rightarrow> (nat \<Rightarrow> nat \<Rightarrow> int \<Rightarrow> nat list list)
     \<Rightarrow> error + bool list list" where
  "compute_mask shape mask_prob mask_length min_masks u multinomial =
     (case shape of (batch_size, sequence_length) \<Rightarrow>
        if mask_length < 1 then Inl (ValueError ''mask_length has to be bigger than 0.'')
        else if mask_length > sequence_length then
          Inl (ValueError ''mask_length has to be smaller than sequence_length'')
        else
          let n = num_masked_spans mask_prob sequence_length mask_length min_masks u;
              mask0 = replicate batch_size (replicate (nat sequence_length) False)
          in bind_err
               (torch_multinomial multinomial batch_size
                  (nat (sequence_length - (mask_length - 1))) n)
               (\<lambda>mask_indices.
                  let mask_indices = expand_indices (nat mask_length) mask_indices;
                      offsets = expand_offsets batch_size (nat n) (nat mask_length);
                      mask_idxs = tensor_add mask_indices offsets
                  in scatter_true mask0 mask_idxs))"

text \<open>
  The same function on a float \<open>mask_prob\<close> with its special values. After the two
  guards, line 193 evaluates \<open>int(mask_prob * sequence_length / mask_length + u)\<close>
  with \<open>sequence_length \<ge> mask_length \<ge> 1\<close>: the sum is NaN for a NaN and infinite
  for an infinity, and \<open>int\<close> raises ValueError on the first and OverflowError on the
  second.
\<close>

datatype py_float = Finite real | NaN | Infinity

definition compute_mask_float ::
  "nat \<times> int \<Rightarrow> py_float \<Rightarrow> int \<Rightarrow> int \<Rightarrow> real \<Rightarrow> (nat \<Rightarrow> nat \<Rightarrow> int \<Rightarrow> nat list list)
     \<Rightarrow> error + bool list list" where
  "compute_mask_float shape mask_prob mask_length min_masks u multinomial =
     (case shape of (batch_size, sequence_length) \<Rightarrow>
        if mask_length < 1 then Inl (ValueError ''mask_length has to be bigger than 0.'')
        else if mask_length > sequence_length then
          Inl (ValueError ''mask_length has to be smaller than sequence_length'')
        else
          (case mask_prob of
             Finite p \<Rightarrow> compute_mask shape p mask_length min_masks u multinomial
           | NaN \<Rightarrow> Inl (ValueError ''cannot convert float NaN to integer'')
           | Infinity \<Rightarrow> Inl (OverflowError ''cannot convert float infinity to integer'')))"


definition span_mask_row :: "nat \<Rightarrow> nat \<Rightarrow> nat list \<Rightarrow> bool list" where
  "span_mask_row sequence_length mask_length starts =
     map (\<lambda>p. \<exists>s \<in> set starts. s \<le> p \<and> p < s + mask_length) [0..<sequence_length]"


text \<open>
  A span of length \<open>l\<close> at \<open>s\<close>: the \<open>l\<close> positions from \<open>s\<close> on are all inside the row
  and True. \<open>count_spans\<close> counts the start positions of such spans, \<open>count_true\<close>
  the True positions.
\<close>

definition span_at :: "nat \<Rightarrow> bool list \<Rightarrow> nat \<Rightarrow> bool" where
  "span_at l row s \<longleftrightarrow> s + l \<le> length row \<and> list_all (\<lambda>b. b) (take l (drop s row))"

definition count_spans :: "nat \<Rightarrow> bool list \<Rightarrow> nat" where
  "count_spans l row = length (filter (span_at l row) [0..<length row])"

definition count_true :: "bool list \<Rightarrow> nat" where
  "count_true row = length (filter (\<lambda>b. b) row)"

section \<open>model.py: FeatureExtractor\<close>

text \<open>
  A tensor of rank 3 is a list of lists of lists of reals: for the extractor a batch of
  items, each a list of channels, each channel the samples in time order.
  \<open>nn.Conv1d(in, out, kernel, stride, bias=False)\<close> is a record of its
  hyperparameters and its learned weight (by output channel, input channel and tap);
  padding is 0 and dilation 1, the defaults the source leaves in place.
\<close>

type_synonym tensor3 = "real list list list"

record Conv1d =
  in_channels :: nat
  out_channels :: nat
  kernel_size :: nat
  stride :: nat
  weight :: "nat \<Rightarrow> nat \<Rightarrow> nat \<Rightarrow> real"

definition Conv1d_init :: "nat \<Rightarrow> nat \<Rightarrow> nat \<Rightarrow> nat \<Rightarrow> (nat \<Rightarrow> nat \<Rightarrow> nat \<Rightarrow> real) \<Rightarrow> Conv1d" where
  "Conv1d_init i out k s w =
     \<lparr>in_channels = i, out_channels = out, kernel_size = k, stride = s, weight = w\<rparr>"

text \<open>
  The windows a kernel of size \<open>k\<close> sees when it slides over a channel with stride
  \<open>s\<close>: the first \<open>k\<close> samples, then the same \<open>s\<close> samples further, as long as a
  whole window fits.
\<close>

function windows :: "nat \<Rightarrow> nat \<Rightarrow> 'a list \<Rightarrow> 'a list list" where
  "windows k s xs =
     (if k = 0 \<or> s = 0 \<or> length xs < k then []
      else take k xs # windows k s (drop s xs))"
  by pat_completeness auto
termination
  by (relation "measure (\<lambda>(k, s, xs). length xs)") auto

declare windows.simps [simp del]

definition dot :: "(nat \<Rightarrow> real) \<Rightarrow> real list \<Rightarrow> real" where
  "dot w win = sum_list (map2 (\<lambda>j v. w j * v) [0..<length win] win)"

text \<open>
  One batch item: the value of output channel \<open>o\<close> at window \<open>t\<close> is the sum over the
  input channels of the kernel applied to that channel's window \<open>t\<close>. The library
  refuses an input with the wrong number of channels or shorter than the kernel.
\<close>

definition conv1d_item :: "Conv1d \<Rightarrow> real list list \<Rightarrow> error + real list list" where
  "conv1d_item c x =
     (case x of
        [] \<Rightarrow> Inl (RuntimeError ''expected input with channels'')
      | ch0 # rest \<Rightarrow>
          if length x \<noteq> in_channels c then Inl (RuntimeError ''channel mismatch'')
          else if length ch0 < kernel_size c then
            Inl (RuntimeError ''Kernel size can not be greater than actual input size'')
          else
            Inr (map (\<lambda>out.
                   map (\<lambda>t. sum_list
                              (map2 (\<lambda>i ch. dot (weight c out i)
                                               (windows (kernel_size c) (stride c) ch ! t))
                                 [0..<length x] x))
                     [0..<length (windows (kernel_size c) (stride c) ch0)])
                   [0..<out_channels c]))"

fun map_err :: "('a \<Rightarrow> error + 'b) \<Rightarrow> 'a list \<Rightarrow> error + 'b list" where
  "map_err f [] = Inr []"
| "map_err f (x # xs) =
     bind_err (f x) (\<lambda>y. bind_err (map_err f xs) (\<lambda>ys. Inr (y # ys)))"

definition conv1d :: "Conv1d \<Rightarrow> tensor3 \<Rightarrow> error + tensor3" where
  "conv1d c x = map_err (conv1d_item c) x"

text \<open>
  \<open>nn.GroupNorm(512, 512)\<close>: one group per channel, so every channel is normalised
  by its own mean and variance over time, then scaled and shifted.
\<close>

record GroupNorm =
  gn_weight :: "nat \<Rightarrow> real"
  gn_bias :: "nat \<Rightarrow> real"
  gn_eps :: real

definition group_norm_channel :: "GroupNorm \<Rightarrow> nat \<Rightarrow> real list \<Rightarrow> real list" where
  "group_norm_channel g c ch =
     (let n = real (length ch);
          mu = sum_list ch / n;
          var = sum_list (map (\<lambda>v. (v - mu)\<^sup>2) ch) / n
      in map (\<lambda>v. (v - mu) / sqrt (var + gn_eps g) * gn_weight g c + gn_bias g c) ch)"

definition group_norm :: "GroupNorm \<Rightarrow> tensor3 \<Rightarrow> tensor3" where
  "group_norm g x = map (\<lambda>item. map2 (group_norm_channel g) [0..<length item] item) x"

text \<open>\<open>F.gelu\<close> acts on every entry; the scalar function is a parameter.\<close>

definition F_gelu :: "(real \<Rightarrow> real) \<Rightarrow> tensor3 \<Rightarrow> tensor3" where
  "F_gelu gelu x = map (map (map gelu)) x"

record FeatureExtractor =
  conv0 :: Conv1d
  norm0 :: GroupNorm
  conv1 :: Conv1d
  conv2 :: Conv1d
  conv3 :: Conv1d
  conv4 :: Conv1d
  conv5 :: Conv1d
  conv6 :: Conv1d

text \<open>\<open>__init__\<close>: the hyperparameters are fixed, the weights \<open>w i\<close> are learned.\<close>

definition FeatureExtractor_init ::
  "(nat \<Rightarrow> nat \<Rightarrow> nat \<Rightarrow> nat \<Rightarrow> real) \<Rightarrow> GroupNorm \<Rightarrow> FeatureExtractor" where
  "FeatureExtractor_init w g =
     \<lparr>conv0 = Conv1d_init 1 512 10 5 (w 0),
      norm0 = g,
      conv1 = Conv1d_init 512 512 3 2 (w 1),
      conv2 = Conv1d_init 512 512 3 2 (w 2),
      conv3 = Conv1d_init 512 512 3 2 (w 3),
      conv4 = Conv1d_init 512 512 3 2 (w 4),
      conv5 = Conv1d_init 512 512 2 2 (w 5),
      conv6 = Conv1d_init 512 512 2 2 (w 6)\<rparr>"

definition FeatureExtractor_forward ::
  "(real \<Rightarrow> real) \<Rightarrow> FeatureExtractor \<Rightarrow> tensor3 \<Rightarrow> error + tensor3" where
  "FeatureExtractor_forward gelu fe x =
     bind_err (conv1d (conv0 fe) x) (\<lambda>x.
     let x = F_gelu gelu (group_norm (norm0 fe) x) in
     bind_err (conv1d (conv1 fe) x) (\<lambda>x.
     let x = F_gelu gelu x in
     bind_err (conv1d (conv2 fe) x) (\<lambda>x.
     let x = F_gelu gelu x in
     bind_err (conv1d (conv3 fe) x) (\<lambda>x.
     let x = F_gelu gelu x in
     bind_err (conv1d (conv4 fe) x) (\<lambda>x.
     let x = F_gelu gelu x in
     bind_err (conv1d (conv5 fe) x) (\<lambda>x.
     let x = F_gelu gelu x in
     bind_err (conv1d (conv6 fe) x) (\<lambda>x.
     let x = F_gelu gelu x in
     Inr x)))))))"

text \<open>
  A tensor has shape \<open>(b, c, t)\<close>. The specification's length formula is one stage
  \<open>L' = floor((L - kernel) / stride) + 1\<close> over the integers, composed over the seven
  stages in order.
\<close>

definition has_shape :: "nat \<Rightarrow> nat \<Rightarrow> nat \<Rightarrow> 'a list list list \<Rightarrow> bool" where
  "has_shape b c t x \<longleftrightarrow>
     length x = b \<and> (\<forall>item \<in> set x. length item = c \<and> (\<forall>ch \<in> set item. length ch = t))"

definition conv_output_length :: "int \<Rightarrow> int \<times> int \<Rightarrow> int" where
  "conv_output_length L ks = (case ks of (k, s) \<Rightarrow> (L - k) div s + 1)"

definition spec_output_length :: "int \<Rightarrow> int" where
  "spec_output_length N =
     foldl conv_output_length N (zip [10, 3, 3, 3, 3, 2, 2] [5, 2, 2, 2, 2, 2, 2])"

section \<open>model.py: Hubert, HubertSoft and HubertDiscrete\<close>

text \<open>
  \<open>nn.Linear\<close> acts on the last axis: every frame vector of the right width is mapped
  to \<open>W v + b\<close>; the library refuses any other width.
\<close>

record Linear =
  in_features :: nat
  out_features :: nat
  lin_weight :: "nat \<Rightarrow> nat \<Rightarrow> real"
  lin_bias :: "nat \<Rightarrow> real"

definition Linear_init :: "nat \<Rightarrow> nat \<Rightarrow> (nat \<Rightarrow> nat \<Rightarrow> real) \<Rightarrow> (nat \<Rightarrow> real) \<Rightarrow> Linear" where
  "Linear_init i out w b =
     \<lparr>in_features = i, out_features = out, lin_weight = w, lin_bias = b\<rparr>"

definition linear_frame :: "Linear \<Rightarrow> real list \<Rightarrow> error + real list" where
  "linear_frame l v =
     (if length v \<noteq> in_features l then
        Inl (RuntimeError ''mat1 and mat2 shapes cannot be multiplied'')
      else Inr (map (\<lambda>out. dot (lin_weight l out) v + lin_bias l out) [0..<out_features l]))"

definition linear :: "Linear \<Rightarrow> tensor3 \<Rightarrow> error + tensor3" where
  "linear l x = map_err (map_err (linear_frame l)) x"

text \<open>
  The module. \<open>training\<close> is the mode flag of \<open>nn.Module\<close> (True after construction,
  set by \<open>train()\<close> and \<open>eval()\<close>), \<open>mask_flag\<close> is \<open>self._mask\<close>. The feature
  extractor and the transformer stack are the ones above; the feature projection, the
  positional embedding, the layer norm and the dropout are library layers and enter as
  functions on tensors (the randomness of dropout in training mode is inside the
  function); \<open>gelu_fn\<close> is the scalar function of \<open>F.gelu\<close>. \<open>proj_linear\<close> is \<open>self.proj\<close>, \<open>norm_layer\<close> is \<open>self.norm\<close>.
\<close>

record Hubert =
  training :: bool
  mask_flag :: bool
  feature_extractor :: FeatureExtractor
  gelu_fn :: "real \<Rightarrow> real"
  feature_projection :: "tensor3 \<Rightarrow> tensor3"
  positional_embedding :: "tensor3 \<Rightarrow> tensor3"
  norm_layer :: "tensor3 \<Rightarrow> tensor3"
  dropout :: "tensor3 \<Rightarrow> tensor3"
  encoder :: "(tensor3, tensor3 option, tensor3 option) encoder_layer list"
  proj_linear :: Linear
  masked_spec_embed :: "real list"

text \<open>
  \<open>__init__\<close>: the mask flag is the argument, the stack has 12 layers, the projection
  maps 768 to 256, and the mask embedding has 768 entries. The learned values and the
  library layers are arguments.
\<close>

definition Hubert_init ::
  "bool \<Rightarrow> (nat \<Rightarrow> nat \<Rightarrow> nat \<Rightarrow> nat \<Rightarrow> real) \<Rightarrow> GroupNorm \<Rightarrow> (real \<Rightarrow> real)
     \<Rightarrow> (tensor3 \<Rightarrow> tensor3) \<Rightarrow> (tensor3 \<Rightarrow> tensor3) \<Rightarrow> (tensor3 \<Rightarrow> tensor3) \<Rightarrow> (tensor3 \<Rightarrow> tensor3)
     \<Rightarrow> (nat \<Rightarrow> (tensor3, tensor3 option, tensor3 option) encoder_layer)
     \<Rightarrow> (nat \<Rightarrow> nat \<Rightarrow> real) \<Rightarrow> (nat \<Rightarrow> real) \<Rightarrow> (nat \<Rightarrow> real) \<Rightarrow> Hubert" where
  "Hubert_init mask_arg conv_w gn act fp pe lnorm dr layer proj_w proj_b emb =
     \<lparr>training = True,
      mask_flag = mask_arg,
      feature_extractor = FeatureExtractor_init conv_w gn,
      gelu_fn = act,
      feature_projection = fp,
      positional_embedding = pe,
      norm_layer = lnorm,
      dropout = dr,
      encoder = map layer [0..<12],
      proj_linear = Linear_init 768 256 proj_w proj_b,
      masked_spec_embed = map emb [0..<768]\<rparr>"

text \<open>
  \<open>x.size(0)\<close> and \<open>x.size(1)\<close> of a tensor given as a list of items; the second is
  read off the first item, so it is the tensor's only for a batch that is not empty.
\<close>

definition size0 :: "'a list list \<Rightarrow> nat" where
  "size0 x = length x"

definition size1 :: "'a list list \<Rightarrow> nat" where
  "size1 x = (case x of [] \<Rightarrow> 0 | item # rest \<Rightarrow> length item)"

text \<open>
  \<open>x[mask] = value\<close> with a boolean mask over the first two axes and a vector
  \<open>value\<close>: every selected frame becomes \<open>value\<close>, broadcast when it has one entry;
  the library refuses a vector of any other width than the frames'.
\<close>

definition masked_assign :: "tensor3 \<Rightarrow> bool list list \<Rightarrow> real list \<Rightarrow> error + tensor3" where
  "masked_assign x msk v =
     (if list_all (list_all (\<lambda>frame. length v = length frame \<or> length v = 1)) x then
        Inr (map2 (map2 (\<lambda>frame m.
               if m then (if length v = length frame then v
                          else replicate (length frame) (hd v))
               else frame)) x msk)
      else Inl (RuntimeError ''shape mismatch: value tensor cannot be broadcast''))"

definition Hubert_mask ::
  "'a Hubert_scheme \<Rightarrow> real \<Rightarrow> (nat \<Rightarrow> nat \<Rightarrow> int \<Rightarrow> nat list list) \<Rightarrow> tensor3
     \<Rightarrow> error + tensor3 \<times> bool list list option" where
  "Hubert_mask self u multinomial x =
     (if training self \<and> mask_flag self then
        bind_err (compute_mask (size0 x, int (size1 x)) 0.8 10 2 u multinomial) (\<lambda>msk.
        bind_err (masked_assign x msk (masked_spec_embed self)) (\<lambda>x.
        Inr (x, Some msk)))
      else Inr (x, None))"

text \<open>\<open>x.transpose(1, 2)\<close> and the sum of two tensors of one shape.\<close>

definition transpose12 :: "tensor3 \<Rightarrow> tensor3" where
  "transpose12 x = map transpose x"

definition tensor3_add :: "tensor3 \<Rightarrow> tensor3 \<Rightarrow> tensor3" where
  "tensor3_add a b = map2 (map2 (map2 (+))) a b"

definition Hubert_encode ::
  "'a Hubert_scheme \<Rightarrow> real \<Rightarrow> (nat \<Rightarrow> nat \<Rightarrow> int \<Rightarrow> nat list list) \<Rightarrow> tensor3 \<Rightarrow> int option
     \<Rightarrow> error + tensor3 \<times> bool list list option" where
  "Hubert_encode self u multinomial x layer =
     bind_err (FeatureExtractor_forward (gelu_fn self) (feature_extractor self) x) (\<lambda>x.
     let x = feature_projection self (transpose12 x) in
     bind_err (Hubert_mask self u multinomial x) (\<lambda>(x, msk).
     let x = tensor3_add x (positional_embedding self x);
         x = dropout self (norm_layer self x);
         x = TransformerEncoder_forward (encoder self) x None None layer
     in Inr (x, msk)))"

text \<open>
  \<open>F.pad(wav, (l, r))\<close>: \<open>l\<close> zeros before and \<open>r\<close> zeros after the samples of every
  channel (the last axis).
\<close>

definition F_pad :: "tensor3 \<Rightarrow> nat \<times> nat \<Rightarrow> tensor3" where
  "F_pad x p = (case p of (l, r) \<Rightarrow> map (map (\<lambda>ch. replicate l 0 @ ch @ replicate r 0)) x)"

definition HubertSoft_units ::
  "'a Hubert_scheme \<Rightarrow> real \<Rightarrow> (nat \<Rightarrow> nat \<Rightarrow> int \<Rightarrow> nat list list) \<Rightarrow> tensor3 \<Rightarrow> error + tensor3" where
  "HubertSoft_units self u multinomial wav =
     (let wav = F_pad wav ((400 - 320) div 2, (400 - 320) div 2) in
      bind_err (Hubert_encode self u multinomial wav None) (\<lambda>(x, _).
      linear (proj_linear self) x))"

text \<open>
  \<open>x.squeeze()\<close> removes every axis of size 1, so its result has rank 0 to 3. The
  sizes are read off the first item and its first frame.
\<close>

datatype ndarray =
    Array0 real
  | Array1 "real list"
  | Array2 "real list list"
  | Array3 "real list list list"

definition size2 :: "'a list list list \<Rightarrow> nat" where
  "size2 x = (case x of [] \<Rightarrow> 0 | item # rest \<Rightarrow> size1 item)"

definition squeeze :: "tensor3 \<Rightarrow> ndarray" where
  "squeeze x =
     (if size0 x = 1 then
        (if size1 x = 1 then
           (if size2 x = 1 then Array0 (hd (hd (hd x))) else Array1 (hd (hd x)))
         else
           (if size2 x = 1 then Array1 (map hd (hd x)) else Array2 (hd x)))
      else
        (if size1 x = 1 then
           (if size2 x = 1 then Array1 (map (\<lambda>item. hd (hd item)) x) else Array2 (map hd x))
         else
           (if size2 x = 1 then Array2 (map (map hd) x) else Array3 x)))"

text \<open>
  \<open>sklearn.cluster.KMeans.predict\<close> is library code; it is written out from its
  documentation. It accepts a matrix of at least one row whose rows have the width of
  the centroids, and returns for each row the index of the closest centroid in
  Euclidean distance (the first one among equally close ones); an array of any other
  rank is refused with ValueError.
\<close>

record KMeans =
  cluster_centers :: "real list list"

definition sq_dist :: "real list \<Rightarrow> real list \<Rightarrow> real" where
  "sq_dist a b = sum_list (map2 (\<lambda>x y. (x - y)\<^sup>2) a b)"

fun argmin_from :: "nat \<times> real \<Rightarrow> nat \<Rightarrow> real list \<Rightarrow> nat \<times> real" where
  "argmin_from best i [] = best"
| "argmin_from best i (e # es) =
     (if e < snd best then argmin_from (i, e) (Suc i) es else argmin_from best (Suc i) es)"

definition argmin :: "real list \<Rightarrow> nat" where
  "argmin ds = (case ds of [] \<Rightarrow> 0 | d # rest \<Rightarrow> fst (argmin_from (0, d) 1 rest))"

definition KMeans_predict :: "KMeans \<Rightarrow> ndarray \<Rightarrow> error + int list" where
  "KMeans_predict km X =
     (case X of
        Array2 rows \<Rightarrow>
          if rows = [] then Inl (ValueError ''Found array with 0 sample(s)'')
          else if \<not> list_all (\<lambda>row. length row = size1 (cluster_centers km)) rows then
            Inl (ValueError ''X has a different number of features than KMeans is expecting'')
          else Inr (map (\<lambda>row. int (argmin (map (sq_dist row) (cluster_centers km)))) rows)
      | Array0 v \<Rightarrow> Inl (ValueError ''Expected 2D array, got scalar array instead'')
      | Array1 v \<Rightarrow> Inl (ValueError ''Expected 2D array, got 1D array instead'')
      | Array3 v \<Rightarrow> Inl (ValueError ''Found array with dim 3. KMeans expected <= 2.''))"

record HubertDiscrete = Hubert +
  kmeans :: KMeans

text \<open>
  \<open>HubertDiscrete.__init__\<close>: the constructor of \<open>Hubert\<close> with its default mask flag,
  and the fitted cluster model.
\<close>

definition HubertDiscrete_init ::
  "KMeans \<Rightarrow> (nat \<Rightarrow> nat \<Rightarrow> nat \<Rightarrow> nat \<Rightarrow> real) \<Rightarrow> GroupNorm \<Rightarrow> (real \<Rightarrow> real)
     \<Rightarrow> (tensor3 \<Rightarrow> tensor3) \<Rightarrow> (tensor3 \<Rightarrow> tensor3) \<Rightarrow> (tensor3 \<Rightarrow> tensor3) \<Rightarrow> (tensor3 \<Rightarrow> tensor3)
     \<Rightarrow> (nat \<Rightarrow> (tensor3, tensor3 option, tensor3 option) encoder_layer)
     \<Rightarrow> (nat \<Rightarrow> nat \<Rightarrow> real) \<Rightarrow> (nat \<Rightarrow> real) \<Rightarrow> (nat \<Rightarrow> real) \<Rightarrow> HubertDiscrete" where
  "HubertDiscrete_init km conv_w gn act fp pe lnorm dr layer proj_w proj_b emb =
     Hubert.extend (Hubert_init True conv_w gn act fp pe lnorm dr layer proj_w proj_b emb)
       (HubertDiscrete.fields km)"

definition HubertDiscrete_units ::
  "'a HubertDiscrete_scheme \<Rightarrow> real \<Rightarrow> (nat \<Rightarrow> nat \<Rightarrow> int \<Rightarrow> nat list list) \<Rightarrow> tensor3
     \<Rightarrow> error + int list" where
  "HubertDiscrete_units self u multinomial wav =
     (let wav = F_pad wav ((400 - 320) div 2, (400 - 320) div 2) in
      bind_err (Hubert_encode self u multinomial wav (Some 7)) (\<lambda>(x, _).
      KMeans_predict (kmeans self) (squeeze x)))"

section \<open>Checkpoint rotation\<close>

lemma on_train_batch_end_returns:
  assumes "save_every_steps cb \<noteq> 0"
  shows "\<exists>cb' fs'. on_train_batch_end cb s fs = Inr (cb', fs')"
  using assms by (simp add: on_train_batch_end_def Let_def split: list.splits)

lemma on_train_batch_end_fields:
  assumes "on_train_batch_end cb s fs = Inr (cb', fs')"
  shows "save_top_k cb' = save_top_k cb \<and> save_every_steps cb' = save_every_steps cb
         \<and> save_path cb' = save_path cb"
  using assms
  by (auto simp: on_train_batch_end_def Let_def split: if_splits list.splits)

lemma on_train_batch_end_skip:
  assumes "save_every_steps cb \<noteq> 0" and "s mod save_every_steps cb \<noteq> 0"
  shows "on_train_batch_end cb s fs = Inr (cb, fs)"
  using assms by (simp add: on_train_batch_end_def)

lemma on_train_batch_end_keep:
  assumes "save_every_steps cb \<noteq> 0" and "s mod save_every_steps cb = 0"
    and "int (length (saved_checkpoints cb)) < save_top_k cb"
  shows "on_train_batch_end cb s fs =
           Inr (cb\<lparr>saved_checkpoints := saved_checkpoints cb @ [checkpoint_path cb s]\<rparr>,
                insert (checkpoint_path cb s) fs)"
  using assms by (simp add: on_train_batch_end_def Let_def)

lemma on_train_batch_end_prune:
  assumes "save_every_steps cb \<noteq> 0" and "s mod save_every_steps cb = 0"
    and "save_top_k cb \<le> int (length (saved_checkpoints cb))"
  shows "on_train_batch_end cb s fs =
           Inr (cb\<lparr>saved_checkpoints := tl (saved_checkpoints cb @ [checkpoint_path cb s])\<rparr>,
                insert (checkpoint_path cb s) fs - {hd (saved_checkpoints cb @ [checkpoint_path cb s])})"
  using assms
  by (cases "saved_checkpoints cb") (auto simp: on_train_batch_end_def Let_def)

lemma on_train_batch_end_bound:
  assumes "on_train_batch_end cb s fs = Inr (cb', fs')"
    and "0 \<le> save_top_k cb"
    and "int (length (saved_checkpoints cb)) \<le> save_top_k cb"
  shows "int (length (saved_checkpoints cb')) \<le> save_top_k cb"
proof -
  have ne: "save_every_steps cb \<noteq> 0"
    using assms(1) by (auto simp: on_train_batch_end_def)
  consider (skip) "s mod save_every_steps cb \<noteq> 0"
    | (keep) "s mod save_every_steps cb = 0" "int (length (saved_checkpoints cb)) < save_top_k cb"
    | (prune) "s mod save_every_steps cb = 0" "save_top_k cb \<le> int (length (saved_checkpoints cb))"
    by linarith
  then show ?thesis
  proof cases
    case skip
    then show ?thesis
      using on_train_batch_end_skip [OF ne skip, of fs] assms by simp
  next
    case keep
    then show ?thesis
      using on_train_batch_end_keep [OF ne keep, of fs] assms(1) by auto
  next
    case prune
    then show ?thesis
      using on_train_batch_end_prune [OF ne prune, of fs] assms by auto
  qed
qed

lemma train_batches_bound:
  assumes "save_every_steps cb \<noteq> 0"
    and "0 \<le> save_top_k cb"
    and "int (length (saved_checkpoints cb)) \<le> save_top_k cb"
  shows "\<exists>cb' fs'. train_batches cb fs steps = Inr (cb', fs')
           \<and> int (length (saved_checkpoints cb')) \<le> save_top_k cb
           \<and> save_top_k cb' = save_top_k cb \<and> save_every_steps cb' = save_every_steps cb"
  using assms
proof (induction steps arbitrary: cb fs)
  case Nil
  then show ?case by simp
next
  case (Cons s steps)
  from on_train_batch_end_returns [OF Cons.prems(1)]
  obtain cb1 fs1 where step: "on_train_batch_end cb s fs = Inr (cb1, fs1)" by blast
  have f: "save_top_k cb1 = save_top_k cb" "save_every_steps cb1 = save_every_steps cb"
    using on_train_batch_end_fields [OF step] by simp_all
  have b: "int (length (saved_checkpoints cb1)) \<le> save_top_k cb1"
    using on_train_batch_end_bound [OF step Cons.prems(2) Cons.prems(3)] f by simp
  have "\<exists>cb' fs'. train_batches cb1 fs1 steps = Inr (cb', fs')
           \<and> int (length (saved_checkpoints cb')) \<le> save_top_k cb1
           \<and> save_top_k cb' = save_top_k cb1 \<and> save_every_steps cb' = save_every_steps cb1"
    using Cons.IH [of cb1 fs1] Cons.prems f b by simp
  then show ?case using step f by simp
qed

text \<open>
  C10. Started from an empty list with a non-negative \<open>save_top_k\<close> (and a non-zero
  \<open>save_every_steps\<close>, so that the hook returns), every run of
  \<open>on_train_batch_end\<close> returns and leaves at most \<open>save_top_k\<close> saved paths.
  A call that saves while the list is already full removes exactly the head of the
  list, the oldest path, and that path's file no longer exists; a call that saves
  below the bound only appends; any other call changes nothing.
\<close>

theorem recent_checkpoints_fifo_bound:
  assumes "0 \<le> k" and "every \<noteq> 0"
  shows "\<exists>cb fs'.
           train_batches (RecentCheckpointsCallback_init path k every) fs steps = Inr (cb, fs')
         \<and> int (length (saved_checkpoints cb)) \<le> k
         \<and> save_top_k cb = k
         \<and> (\<forall>s fs0. on_train_batch_end cb s fs0 =
              (if s mod every \<noteq> 0 then Inr (cb, fs0)
               else if int (length (saved_checkpoints cb)) < k then
                 Inr (cb\<lparr>saved_checkpoints := saved_checkpoints cb @ [checkpoint_path cb s]\<rparr>,
                      insert (checkpoint_path cb s) fs0)
               else
                 Inr (cb\<lparr>saved_checkpoints := tl (saved_checkpoints cb @ [checkpoint_path cb s])\<rparr>,
                      insert (checkpoint_path cb s) fs0
                        - {hd (saved_checkpoints cb @ [checkpoint_path cb s])})))"
proof -
  let ?init = "RecentCheckpointsCallback_init path k every"
  have i: "save_every_steps ?init \<noteq> 0" "0 \<le> save_top_k ?init"
    "int (length (saved_checkpoints ?init)) \<le> save_top_k ?init"
    using assms by (simp_all add: RecentCheckpointsCallback_init_def)
  from train_batches_bound [OF i, of fs steps]
  obtain cb fs' where r: "train_batches ?init fs steps = Inr (cb, fs')"
    and b: "int (length (saved_checkpoints cb)) \<le> save_top_k ?init"
    and f: "save_top_k cb = save_top_k ?init" "save_every_steps cb = save_every_steps ?init"
    by blast
  have k: "save_top_k cb = k" and e: "save_every_steps cb = every"
    using f by (simp_all add: RecentCheckpointsCallback_init_def)
  have ne: "save_every_steps cb \<noteq> 0" using e assms(2) by simp
  have step: "on_train_batch_end cb s fs0 =
              (if s mod every \<noteq> 0 then Inr (cb, fs0)
               else if int (length (saved_checkpoints cb)) < k then
                 Inr (cb\<lparr>saved_checkpoints := saved_checkpoints cb @ [checkpoint_path cb s]\<rparr>,
                      insert (checkpoint_path cb s) fs0)
               else
                 Inr (cb\<lparr>saved_checkpoints := tl (saved_checkpoints cb @ [checkpoint_path cb s])\<rparr>,
                      insert (checkpoint_path cb s) fs0
                        - {hd (saved_checkpoints cb @ [checkpoint_path cb s])}))" for s fs0
  proof (cases "s mod every \<noteq> 0")
    case True
    then show ?thesis using on_train_batch_end_skip [OF ne, of s fs0] e by simp
  next
    case False
    then have m: "s mod save_every_steps cb = 0" using e by simp
    show ?thesis
    proof (cases "int (length (saved_checkpoints cb)) < k")
      case True
      then show ?thesis
        using on_train_batch_end_keep [OF ne m, of fs0] k False by simp
    next
      case full: False
      then have "save_top_k cb \<le> int (length (saved_checkpoints cb))" using k by simp
      from on_train_batch_end_prune [OF ne m this, of fs0]
      show ?thesis using False full by simp
    qed
  qed
  from r b k step show ?thesis
    by (simp add: RecentCheckpointsCallback_init_def)
qed

theorem recent_checkpoints_fifo_bound_witness:
  "(0::int) \<le> 1 \<and> (1::int) \<noteq> 0
   \<and> (\<exists>cb fs'. train_batches (RecentCheckpointsCallback_init ''ckpt'' 1 1) {} [0, 1] = Inr (cb, fs')
          \<and> int (length (saved_checkpoints cb)) \<le> 1)
   \<and> train_batches (RecentCheckpointsCallback_init ''ckpt'' 1 1) {} [0, 1] =
         Inr (\<lparr>save_path = ''ckpt'', save_top_k = 1,
                saved_checkpoints = [''ckpt/checkpoint-step=1.ckpt''], save_every_steps = 1\<rparr>,
              {''ckpt/checkpoint-step=1.ckpt''})"
proof -
  have run: "train_batches (RecentCheckpointsCallback_init ''ckpt'' 1 1) {} [0, 1] =
         Inr (\<lparr>save_path = ''ckpt'', save_top_k = 1,
                saved_checkpoints = [''ckpt/checkpoint-step=1.ckpt''], save_every_steps = 1\<rparr>,
              {''ckpt/checkpoint-step=1.ckpt''})"
    by (simp add: RecentCheckpointsCallback_init_def on_train_batch_end_def checkpoint_path_def
          os_path_join_def str_int_def str_nat.simps Let_def insert_Diff_if)
  have h: "(0::int) \<le> 1" "(1::int) \<noteq> 0" by simp_all
  from recent_checkpoints_fifo_bound [OF h, of "''ckpt''" "{}" "[0, 1]"]
  have "\<exists>cb fs'. train_batches (RecentCheckpointsCallback_init ''ckpt'' 1 1) {} [0, 1] = Inr (cb, fs')
          \<and> int (length (saved_checkpoints cb)) \<le> 1"
    by blast
  with run show ?thesis by simp
qed

section \<open>Partial runs of the transformer stack\<close>

lemma full_run_states_nth:
  "n \<le> length layers \<Longrightarrow>
     full_run_states layers x m k ! n = foldl (\<lambda>output layer. layer output m k) x (take n layers)"
proof (induction layers arbitrary: x n)
  case Nil
  then show ?case by simp
next
  case (Cons layer rest)
  then show ?case by (cases n) simp_all
qed

lemma full_run_states_length: "length (full_run_states layers x m k) = Suc (length layers)"
  by (induction layers arbitrary: x) simp_all

lemma full_run_states_last:
  "last (full_run_states layers x m k) = foldl (\<lambda>output layer. layer output m k) x layers"
proof -
  have "last (full_run_states layers x m k) = full_run_states layers x m k ! length layers"
    using full_run_states_length [of layers x m k]
    by (metis diff_Suc_1 last_conv_nth length_0_conv nat.distinct(1))
  then show ?thesis by (simp add: full_run_states_nth)
qed

lemma forward_Some:
  "0 \<le> n \<Longrightarrow> TransformerEncoder_forward layers src m k (Some n) =
     foldl (\<lambda>output layer. layer output m k) src (take (nat n) layers)"
  by (simp add: TransformerEncoder_forward_def py_slice_to_def)

lemma forward_None:
  "TransformerEncoder_forward layers src m k None = foldl (\<lambda>output layer. layer output m k) src layers"
  by (simp add: TransformerEncoder_forward_def py_slice_to_def)

text \<open>
  C4, amended. On a stack of 12 layers, \<open>output_layer = n\<close> with \<open>1 \<le> n \<le> 12\<close>
  returns the first \<open>n\<close> layers applied in order to the input, which is the state a
  full run has after \<open>n\<close> layers; with \<open>output_layer\<close> omitted all 12 layers are
  applied; and the full output is what the remaining layers make of the partial
  result. Nothing says the two differ.
\<close>

theorem transformer_output_layer_prefix:
  assumes "length layers = 12" and "1 \<le> n" and "n \<le> 12"
  shows "TransformerEncoder_forward layers src m k (Some n) =
           foldl (\<lambda>output layer. layer output m k) src (take (nat n) layers)
       \<and> TransformerEncoder_forward layers src m k (Some n) =
           full_run_states layers src m k ! nat n
       \<and> TransformerEncoder_forward layers src m k None =
           foldl (\<lambda>output layer. layer output m k) src layers
       \<and> TransformerEncoder_forward layers src m k None = last (full_run_states layers src m k)
       \<and> TransformerEncoder_forward layers src m k None =
           foldl (\<lambda>output layer. layer output m k)
             (TransformerEncoder_forward layers src m k (Some n)) (drop (nat n) layers)"
proof -
  have n0: "0 \<le> n" and nl: "nat n \<le> length layers" using assms by simp_all
  have split: "foldl (\<lambda>output layer. layer output m k) src layers =
        foldl (\<lambda>output layer. layer output m k)
          (foldl (\<lambda>output layer. layer output m k) src (take (nat n) layers)) (drop (nat n) layers)"
    by (metis append_take_drop_id foldl_append)
  show ?thesis
    using forward_Some [OF n0, of layers src m k] forward_None [of layers src m k]
      full_run_states_nth [OF nl, of src m k] full_run_states_last [of layers src m k] split
    by simp
qed

theorem transformer_output_layer_prefix_witness:
  "length (replicate 12 (\<lambda>(x::int) (m::unit) (k::unit). x + 1)) = 12 \<and> (1::int) \<le> 7 \<and> (7::int) \<le> 12
   \<and> TransformerEncoder_forward (replicate 12 (\<lambda>x m k. x + 1)) (0::int) () () (Some 7) =
       full_run_states (replicate 12 (\<lambda>x m k. x + 1)) 0 () () ! nat 7
   \<and> TransformerEncoder_forward (replicate 12 (\<lambda>x m k. x + 1)) (0::int) () () (Some 7) = 7
   \<and> TransformerEncoder_forward (replicate 12 (\<lambda>x m k. x + 1)) (0::int) () () None = 12"
proof -
  have a: "TransformerEncoder_forward (replicate 12 (\<lambda>x m k. x + 1)) (0::int) () () (Some 7) = 7"
    by code_simp
  have b: "TransformerEncoder_forward (replicate 12 (\<lambda>x m k. x + 1)) (0::int) () () None = 12"
    by code_simp
  from transformer_output_layer_prefix
         [of "replicate 12 (\<lambda>(x::int) (m::unit) (k::unit). x + 1)" 7 0 "()" "()"]
  have "TransformerEncoder_forward (replicate 12 (\<lambda>x m k. x + 1)) (0::int) () () (Some 7) =
       full_run_states (replicate 12 (\<lambda>x m k. x + 1)) 0 () () ! nat 7"
    by simp
  with a b show ?thesis by simp
qed

text \<open>
  The claim as stated asks the result for \<open>output_layer = 7\<close> to differ from the full
  output. Twelve layers that each return the zero state (what an encoder layer
  computes when its parameters are all zero) give the same result after 7 and after
  12 layers.
\<close>

theorem transformer_output_layer_7_counterexample:
  "\<not> (TransformerEncoder_forward (replicate 12 (\<lambda>(x::int) (m::unit) (k::unit). 0)) 5 () () (Some 7)
        \<noteq> TransformerEncoder_forward (replicate 12 (\<lambda>(x::int) (m::unit) (k::unit). 0)) 5 () () None)"
  by code_simp

section \<open>Evaluation callback: skipped predictions and the composite metrics\<close>

lemma aggregate_result:
  assumes "metric_compute env ''BoundaryEditRatio'' a1 = Inr ber"
    and "metric_compute env ''BoundaryEditRatioWeighted'' a2 = Inr berw"
    and "metric_compute env ''VlabelerEditRatio10-20ms'' a3 = Inr m10"
    and "metric_compute env ''VlabelerEditRatio20-50ms'' a4 = Inr m20"
    and "metric_compute env ''VlabelerEditRatio50-100ms'' a5 = Inr m50"
    and "metric_compute env ''VlabelerEditRatio100-5000ms'' a6 = Inr m100"
  shows "aggregate env (metrics_dict a1 a2 a3 a4 a5 a6) =
    Inr [(''BoundaryEditRatio'', ber),
      (''BoundaryEditRatioWeighted'', berw),
      (''VlabelerEditRatio10-20ms'', m10),
      (''VlabelerEditRatio20-50ms'', m20),
      (''VlabelerEditRatio50-100ms'', m50),
      (''VlabelerEditRatio100-5000ms'', m100),
      (''vlabeler_loss'', m10 * 0.1 + m20 * 0.2 + m50 * 0.3 + m100 * 0.4),
      (''total'', (m10 * 0.1 + m20 * 0.2 + m50 * 0.3 + m100 * 0.4) * 0.5 + berw * 0.5)]"
  using assms
  by (simp add: aggregate_def metrics_dict_def bind_err_def dict_get_def Let_def)

text \<open>
  C5. When the six metrics compute to \<open>ber\<close>, \<open>berw\<close>, \<open>m10\<close>, \<open>m20\<close>, \<open>m50\<close>
  and \<open>m100\<close>, the aggregation returns a result dictionary in which
  \<open>vlabeler_loss = 0.1 m10 + 0.2 m20 + 0.3 m50 + 0.4 m100\<close> and
  \<open>total = 0.5 vlabeler_loss + 0.5 berw\<close>; for the values 0.1, 0.2, 0.3, 0.4 the loss
  is 0.30, and with \<open>berw = 0.5\<close> the total is 0.40 (over the reals).
\<close>

theorem vlabeler_loss_and_total:
  assumes "metric_compute env ''BoundaryEditRatio'' a1 = Inr ber"
    and "metric_compute env ''BoundaryEditRatioWeighted'' a2 = Inr berw"
    and "metric_compute env ''VlabelerEditRatio10-20ms'' a3 = Inr m10"
    and "metric_compute env ''VlabelerEditRatio20-50ms'' a4 = Inr m20"
    and "metric_compute env ''VlabelerEditRatio50-100ms'' a5 = Inr m50"
    and "metric_compute env ''VlabelerEditRatio100-5000ms'' a6 = Inr m100"
  shows "\<exists>result. aggregate env (metrics_dict a1 a2 a3 a4 a5 a6) = Inr result
       \<and> dict_get result ''vlabeler_loss'' = Inr (0.1 * m10 + 0.2 * m20 + 0.3 * m50 + 0.4 * m100)
       \<and> dict_get result ''total'' =
           Inr (0.5 * (0.1 * m10 + 0.2 * m20 + 0.3 * m50 + 0.4 * m100) + 0.5 * berw)
       \<and> (m10 = 0.1 \<and> m20 = 0.2 \<and> m50 = 0.3 \<and> m100 = 0.4 \<longrightarrow>
            dict_get result ''vlabeler_loss'' = Inr 0.3
            \<and> (berw = 0.5 \<longrightarrow> dict_get result ''total'' = Inr 0.4))"
proof -
  let ?loss = "m10 * 0.1 + m20 * 0.2 + m50 * 0.3 + m100 * 0.4"
  let ?result = "[(''BoundaryEditRatio'', ber),
      (''BoundaryEditRatioWeighted'', berw),
      (''VlabelerEditRatio10-20ms'', m10),
      (''VlabelerEditRatio20-50ms'', m20),
      (''VlabelerEditRatio50-100ms'', m50),
      (''VlabelerEditRatio100-5000ms'', m100),
      (''vlabeler_loss'', ?loss),
      (''total'', ?loss * 0.5 + berw * 0.5)]"
  have r: "aggregate env (metrics_dict a1 a2 a3 a4 a5 a6) = Inr ?result"
    by (rule aggregate_result [OF assms])
  have l: "dict_get ?result ''vlabeler_loss'' = Inr ?loss"
    by (simp add: dict_get_def)
  have t: "dict_get ?result ''total'' = Inr (?loss * 0.5 + berw * 0.5)"
    by (simp add: dict_get_def)
  have l': "?loss = 0.1 * m10 + 0.2 * m20 + 0.3 * m50 + 0.4 * m100"
    by (simp add: mult.commute)
  have t': "?loss * 0.5 + berw * 0.5 = 0.5 * (0.1 * m10 + 0.2 * m20 + 0.3 * m50 + 0.4 * m100) + 0.5 * berw"
    by (simp add: mult.commute)
  have n1: "(0.1::real) * 0.1 + 0.2 * 0.2 + 0.3 * 0.3 + 0.4 * 0.4 = 0.3" by simp
  have n2: "(0.5::real) * 0.3 + 0.5 * 0.5 = 0.4" by simp
  have c1: "dict_get ?result ''vlabeler_loss'' = Inr 0.3"
    if "m10 = 0.1 \<and> m20 = 0.2 \<and> m50 = 0.3 \<and> m100 = 0.4"
    using that l l' n1 by metis
  have c2: "dict_get ?result ''total'' = Inr 0.4"
    if "m10 = 0.1 \<and> m20 = 0.2 \<and> m50 = 0.3 \<and> m100 = 0.4" and "berw = 0.5"
    using that t t' n1 n2 by metis
  show ?thesis
  proof (intro exI conjI impI)
    show "aggregate env (metrics_dict a1 a2 a3 a4 a5 a6) = Inr ?result" by (rule r)
    show "dict_get ?result ''vlabeler_loss'' = Inr (0.1 * m10 + 0.2 * m20 + 0.3 * m50 + 0.4 * m100)"
      using l l' by metis
    show "dict_get ?result ''total'' =
           Inr (0.5 * (0.1 * m10 + 0.2 * m20 + 0.3 * m50 + 0.4 * m100) + 0.5 * berw)"
      using t t' by metis
    show "dict_get ?result ''vlabeler_loss'' = Inr 0.3"
      if "m10 = 0.1 \<and> m20 = 0.2 \<and> m50 = 0.3 \<and> m100 = 0.4"
      using c1 that by blast
    show "dict_get ?result ''total'' = Inr 0.4"
      if "m10 = 0.1 \<and> m20 = 0.2 \<and> m50 = 0.3 \<and> m100 = 0.4" and "berw = 0.5"
      using c2 that by blast
  qed
qed

theorem vlabeler_loss_and_total_witness:
  "aggregate
     \<lparr>rglob = \<lambda>n. [], textgrid_from_file = \<lambda>f. Inr [()], remove_ignored_phonemes = \<lambda>s t. t,
      metric_update = \<lambda>n a p t. Inr a, metric_compute = \<lambda>n a. Inr a\<rparr>
     (metrics_dict 0.7 0.5 0.1 0.2 0.3 0.4) =
   Inr [(''BoundaryEditRatio'', 0.7),
      (''BoundaryEditRatioWeighted'', 0.5),
      (''VlabelerEditRatio10-20ms'', 0.1),
      (''VlabelerEditRatio20-50ms'', 0.2),
      (''VlabelerEditRatio50-100ms'', 0.3),
      (''VlabelerEditRatio100-5000ms'', 0.4),
      (''vlabeler_loss'', 0.3),
      (''total'', 0.4)]
   \<and> (\<exists>result.
        aggregate
          \<lparr>rglob = \<lambda>n. [], textgrid_from_file = \<lambda>f. Inr [()], remove_ignored_phonemes = \<lambda>s t. t,
           metric_update = \<lambda>n a p t. Inr a, metric_compute = \<lambda>n a. Inr a\<rparr>
          (metrics_dict 0.7 0.5 0.1 0.2 0.3 0.4) = Inr result
        \<and> dict_get result ''vlabeler_loss'' = Inr 0.3
        \<and> dict_get result ''total'' = Inr 0.4)"
proof -
  let ?env = "\<lparr>rglob = \<lambda>n. [], textgrid_from_file = \<lambda>f. Inr [()],
      remove_ignored_phonemes = \<lambda>s (t::unit). t,
      metric_update = \<lambda>n (a::real) p t. Inr a, metric_compute = \<lambda>n a. Inr a\<rparr>"
  have c: "metric_compute ?env k a = Inr a" for k a by simp
  have e: "aggregate ?env (metrics_dict 0.7 0.5 0.1 0.2 0.3 0.4) =
   Inr [(''BoundaryEditRatio'', 0.7),
      (''BoundaryEditRatioWeighted'', 0.5),
      (''VlabelerEditRatio10-20ms'', 0.1),
      (''VlabelerEditRatio20-50ms'', 0.2),
      (''VlabelerEditRatio50-100ms'', 0.3),
      (''VlabelerEditRatio100-5000ms'', 0.4),
      (''vlabeler_loss'', 0.3),
      (''total'', 0.4)]"
    by (simp add: aggregate_def metrics_dict_def bind_err_def dict_get_def Let_def)
  from vlabeler_loss_and_total [where env = ?env and ?a1.0 = "0.7" and ?a2.0 = "0.5"
      and ?a3.0 = "0.1" and ?a4.0 = "0.2" and ?a5.0 = "0.3" and ?a6.0 = "0.4", OF c c c c c c]
  have "\<exists>result. aggregate ?env (metrics_dict 0.7 0.5 0.1 0.2 0.3 0.4) = Inr result
        \<and> dict_get result ''vlabeler_loss'' = Inr 0.3
        \<and> dict_get result ''total'' = Inr 0.4"
    by auto
  with e show ?thesis by blast
qed

lemma metric_phase_skip:
  assumes "rglob env (path_name f) = []"
  shows "metric_phase env (pre @ f # post) metrics = metric_phase env (pre @ post) metrics"
  using assms
proof (induction pre arbitrary: metrics)
  case Nil
  then show ?case by simp
next
  case (Cons p pre)
  then show ?case
    by (simp add: bind_err_def split: list.splits sum.splits)
qed

text \<open>
  C6. A prediction file whose name has no match in the reference folder is skipped:
  the loop gives the result it gives on the list without that file, whatever comes
  before and after it; in particular alone it returns the accumulators untouched and
  raises nothing.
\<close>

theorem missing_reference_skipped:
  assumes "rglob env (path_name pred_file) = []"
  shows "metric_phase env (pre @ pred_file # post) metrics = metric_phase env (pre @ post) metrics
       \<and> metric_phase env (pred_file # post) metrics = metric_phase env post metrics
       \<and> metric_phase env [pred_file] metrics = Inr metrics"
  using metric_phase_skip [OF assms, of pre post metrics] assms by simp

theorem missing_reference_skipped_witness:
  "rglob \<lparr>rglob = \<lambda>n. if n = ''a.TextGrid'' then [''ref/a.TextGrid''] else [],
          textgrid_from_file = \<lambda>f. Inr [()], remove_ignored_phonemes = \<lambda>s t. t,
          metric_update = \<lambda>n (a::nat) p t. Inr (a + 1), metric_compute = \<lambda>n a. Inr (real a)\<rparr>
     (path_name ''out/b.TextGrid'') = []
   \<and> metric_phase \<lparr>rglob = \<lambda>n. if n = ''a.TextGrid'' then [''ref/a.TextGrid''] else [],
          textgrid_from_file = \<lambda>f. Inr [()], remove_ignored_phonemes = \<lambda>s t. t,
          metric_update = \<lambda>n (a::nat) p t. Inr (a + 1), metric_compute = \<lambda>n a. Inr (real a)\<rparr>
       ([''out/a.TextGrid''] @ ''out/b.TextGrid'' # [''out/a.TextGrid'']) [(''m'', 0)]
     = metric_phase \<lparr>rglob = \<lambda>n. if n = ''a.TextGrid'' then [''ref/a.TextGrid''] else [],
          textgrid_from_file = \<lambda>f. Inr [()], remove_ignored_phonemes = \<lambda>s t. t,
          metric_update = \<lambda>n (a::nat) p t. Inr (a + 1), metric_compute = \<lambda>n a. Inr (real a)\<rparr>
       ([''out/a.TextGrid''] @ [''out/a.TextGrid'']) [(''m'', 0)]
   \<and> metric_phase \<lparr>rglob = \<lambda>n. if n = ''a.TextGrid'' then [''ref/a.TextGrid''] else [],
          textgrid_from_file = \<lambda>f. Inr [()], remove_ignored_phonemes = \<lambda>s t. t,
          metric_update = \<lambda>n (a::nat) p t. Inr (a + 1), metric_compute = \<lambda>n a. Inr (real a)\<rparr>
       [''out/a.TextGrid'', ''out/b.TextGrid'', ''out/a.TextGrid''] [(''m'', 0)]
     = Inr [(''m'', 2)]"
proof -
  let ?env = "\<lparr>rglob = \<lambda>n. if n = ''a.TextGrid'' then [''ref/a.TextGrid''] else [],
          textgrid_from_file = \<lambda>f. Inr [()], remove_ignored_phonemes = \<lambda>s (t::unit). t,
          metric_update = \<lambda>n (a::nat) p t. Inr (a + 1), metric_compute = \<lambda>n a. Inr (real a)\<rparr>"
  have h: "rglob ?env (path_name ''out/b.TextGrid'') = []"
    by (simp add: path_name_def)
  have e: "metric_phase ?env [''out/a.TextGrid'', ''out/b.TextGrid'', ''out/a.TextGrid'']
             [(''m'', 0)] = Inr [(''m'', 2)]"
    by (simp add: path_name_def bind_err_def last_tier_def)
  from missing_reference_skipped [OF h, of "[''out/a.TextGrid'']" "[''out/a.TextGrid'']" "[(''m'', 0)]"]
  have "metric_phase ?env ([''out/a.TextGrid''] @ ''out/b.TextGrid'' # [''out/a.TextGrid''])
            [(''m'', 0)]
        = metric_phase ?env ([''out/a.TextGrid''] @ [''out/a.TextGrid'']) [(''m'', 0)]"
    by blast
  with h e show ?thesis by simp
qed

section \<open>The span masker\<close>

lemma scatter_row_eq:
  "\<forall>j \<in> set js. j < length row \<Longrightarrow>
     scatter_row row js = Inr (map (\<lambda>p. row ! p \<or> p \<in> set js) [0..<length row])"
proof (induction js arbitrary: row)
  case Nil
  then show ?case by (simp add: map_nth)
next
  case (Cons j js)
  then have "scatter_row (row[j := True]) js =
     Inr (map (\<lambda>p. row[j := True] ! p \<or> p \<in> set js) [0..<length (row[j := True])])"
    by simp
  moreover have "map (\<lambda>p. row[j := True] ! p \<or> p \<in> set js) [0..<length (row[j := True])]
      = map (\<lambda>p. row ! p \<or> p \<in> set (j # js)) [0..<length row]"
    using Cons.prems by (auto simp: nth_list_update)
  ultimately show ?case using Cons.prems by simp
qed

lemma map2_replicate_upt:
  "map2 (+) (replicate l s) [0..<l] = map (\<lambda>off. s + off) [0..<l]"
  by (rule nth_equalityI) simp_all

lemma span_indices_set:
  "set (map2 (+) (concat (map (replicate l) row)) (concat (replicate (length row) [0..<l])))
     = {s + off | s off. s \<in> set row \<and> off < l}"
proof (induction row)
  case Nil
  then show ?case by simp
next
  case (Cons s row)
  have "map2 (+) (concat (map (replicate l) (s # row))) (concat (replicate (length (s # row)) [0..<l]))
      = map2 (+) (replicate l s) [0..<l]
        @ map2 (+) (concat (map (replicate l) row)) (concat (replicate (length row) [0..<l]))"
    by simp
  then have "set (map2 (+) (concat (map (replicate l) (s # row)))
                   (concat (replicate (length (s # row)) [0..<l])))
      = set (map (\<lambda>off. s + off) [0..<l]) \<union> {s' + off | s' off. s' \<in> set row \<and> off < l}"
    using Cons.IH by (simp add: map2_replicate_upt del: replicate_Suc length_Cons)
  also have "set (map (\<lambda>off. s + off) [0..<l]) = {s + off | off. off < l}"
    by (auto simp: nat_le_iff_add)
  also have "{s + off | off. off < l} \<union> {s' + off | s' off. s' \<in> set row \<and> off < l}
      = {s' + off | s' off. s' \<in> set (s # row) \<and> off < l}"
    by auto
  finally show ?case .
qed


lemma tensor_add_expand:
  "length draws = b \<Longrightarrow> \<forall>row \<in> set draws. length row = n \<Longrightarrow>
     tensor_add (expand_indices l draws) (expand_offsets b n l)
       = map (\<lambda>row. map2 (+) (concat (map (replicate l) row))
                          (concat (replicate (length row) [0..<l]))) draws"
  unfolding tensor_add_def expand_indices_def expand_offsets_def
  by (rule nth_equalityI) simp_all

lemma scatter_true_eq:
  "\<forall>idx \<in> set idxs. \<forall>j \<in> set idx. j < n \<Longrightarrow>
     scatter_true (replicate (length idxs) (replicate n False)) idxs
       = Inr (map (\<lambda>idx. map (\<lambda>p. p \<in> set idx) [0..<n]) idxs)"
proof (induction idxs)
  case Nil
  then show ?case by simp
next
  case (Cons idx idxs)
  have "scatter_row (replicate n False) idx = Inr (map (\<lambda>p. p \<in> set idx) [0..<n])"
    using Cons.prems scatter_row_eq [of idx "replicate n False"] by simp
  then show ?case using Cons by (simp add: bind_err_def)
qed


lemma span_set_conv:
  "p \<in> {s + off | s off. s \<in> set row \<and> off < l} \<longleftrightarrow> (\<exists>s \<in> set row. s \<le> p \<and> p < s + (l::nat))"
proof
  assume "p \<in> {s + off | s off. s \<in> set row \<and> off < l}"
  then obtain s off where "p = s + off" "s \<in> set row" "off < l" by blast
  then show "\<exists>s \<in> set row. s \<le> p \<and> p < s + l"
    by (intro bexI [of _ s]) simp_all
next
  assume "\<exists>s \<in> set row. s \<le> p \<and> p < s + l"
  then obtain s where s: "s \<in> set row" "s \<le> p" "p < s + l" by blast
  then have "p = s + (p - s)" "p - s < l" by simp_all
  with s(1) show "p \<in> {s + off | s off. s \<in> set row \<and> off < l}" by blast
qed

lemma compute_mask_spec_form:
  assumes l1: "1 \<le> mask_length" and ls: "mask_length \<le> sequence_length"
    and n: "n = num_masked_spans mask_prob sequence_length mask_length min_masks u"
    and m: "multinomial_returns batch_size (nat (sequence_length - mask_length + 1)) n
              (multinomial batch_size (nat (sequence_length - mask_length + 1)) n)"
  shows "compute_mask (batch_size, sequence_length) mask_prob mask_length min_masks u multinomial
       = Inr (map (span_mask_row (nat sequence_length) (nat mask_length))
               (multinomial batch_size (nat (sequence_length - mask_length + 1)) n))"
proof -
  let ?K = "nat (sequence_length - mask_length + 1)"
  let ?draws = "multinomial batch_size ?K n"
  let ?l = "nat mask_length"
  let ?S = "nat sequence_length"
  let ?idx = "\<lambda>row. map2 (+) (concat (map (replicate ?l) row))
                          (concat (replicate (length row) [0..<?l]))"
  have len: "length ?draws = batch_size"
    and rows: "\<forall>row \<in> set ?draws. length row = nat n"
    and rng: "\<forall>row \<in> set ?draws. \<forall>s \<in> set row. s < ?K"
    and pos: "0 < n" and fits: "n \<le> int ?K"
    using m by (auto simp: multinomial_returns_def)
  have tm: "torch_multinomial multinomial batch_size ?K n = Inr ?draws"
    using pos fits by (simp add: torch_multinomial_def)
  have K: "sequence_length - (mask_length - 1) = sequence_length - mask_length + 1" by simp
  have add: "tensor_add (expand_indices ?l ?draws) (expand_offsets batch_size (nat n) ?l)
               = map ?idx ?draws"
    by (rule tensor_add_expand [OF len rows])
  have inr: "\<forall>idx \<in> set (map ?idx ?draws). \<forall>j \<in> set idx. j < ?S"
  proof (intro ballI)
    fix idx j assume "idx \<in> set (map ?idx ?draws)" and j: "j \<in> set idx"
    then obtain row where row: "row \<in> set ?draws" and idx: "idx = ?idx row" by auto
    from j idx obtain s off where "j = s + off" "s \<in> set row" "off < ?l"
      using span_indices_set [of ?l row] by auto
    moreover have "s < ?K" using rng row \<open>s \<in> set row\<close> by blast
    ultimately show "j < ?S" using l1 ls by linarith
  qed
  have sc: "scatter_true (replicate batch_size (replicate ?S False)) (map ?idx ?draws)
      = Inr (map (\<lambda>idx. map (\<lambda>p. p \<in> set idx) [0..<?S]) (map ?idx ?draws))"
    using scatter_true_eq [OF inr] len by simp
  have row_eq: "map (\<lambda>p. p \<in> set (?idx row)) [0..<?S] = span_mask_row ?S ?l row" for row
    by (simp only: span_mask_row_def span_indices_set span_set_conv)
  have "compute_mask (batch_size, sequence_length) mask_prob mask_length min_masks u multinomial
      = scatter_true (replicate batch_size (replicate ?S False))
          (tensor_add (expand_indices ?l ?draws) (expand_offsets batch_size (nat n) ?l))"
    using l1 ls tm by (simp add: compute_mask_def K n [symmetric] Let_def bind_err_def)
  also have "\<dots> = Inr (map (\<lambda>idx. map (\<lambda>p. p \<in> set idx) [0..<?S]) (map ?idx ?draws))"
    by (simp only: add sc)
  also have "\<dots> = Inr (map (span_mask_row ?S ?l) ?draws)"
    by (simp only: map_map comp_def row_eq)
  finally show ?thesis .
qed


lemma scatter_row_error: "scatter_row row js = Inl e \<Longrightarrow> \<exists>msg. e = RuntimeError msg"
  by (induction row js rule: scatter_row.induct) (auto split: if_splits)

lemma scatter_true_error: "scatter_true rows idxs = Inl e \<Longrightarrow> \<exists>msg. e = RuntimeError msg"
proof (induction rows idxs rule: scatter_true.induct)
  case (3 row rows idx idxs)
  then show ?case
    using scatter_row_error [of row idx]
    by (auto simp: bind_err_def split: sum.splits)
qed (auto split: if_splits)

lemma scatter_true_not_ValueError: "\<not> is_ValueError (scatter_true rows idxs)"
proof (cases "scatter_true rows idxs")
  case (Inl e)
  then show ?thesis using scatter_true_error [OF Inl] by auto
next
  case (Inr m)
  then show ?thesis by simp
qed

lemma compute_mask_ValueError_iff:
  "is_ValueError (compute_mask (b, S) p L mm u multinomial) \<longleftrightarrow> L < 1 \<or> S < L"
  by (simp add: compute_mask_def Let_def torch_multinomial_def bind_err_def
        scatter_true_not_ValueError)

lemma compute_mask_no_spans:
  assumes "1 \<le> L" and "L \<le> S" and "num_masked_spans p S L mm u \<le> 0"
  shows "compute_mask (b, S) p L mm u multinomial
       = Inl (RuntimeError ''cannot sample n_sample <= 0 samples'')"
  using assms by (simp add: compute_mask_def Let_def torch_multinomial_def bind_err_def)

lemma num_masked_spans_lower:
  assumes "1 \<le> L"
  shows "min mm (S div L) \<le> num_masked_spans p S L mm u"
  by (simp add: num_masked_spans_def Let_def min_le_iff_disj le_max_iff_disj)

lemma num_masked_spans_fits:
  assumes "1 \<le> L" and "L \<le> S"
  shows "num_masked_spans p S L mm u * L \<le> S"
proof -
  have "S div L * L \<le> S" using assms
    by (metis mult.commute order_less_le_trans pos_mod_sign minus_mod_eq_mult_div diff_le_eq
        le_add_same_cancel1 zero_less_one)
  then show ?thesis by (simp add: num_masked_spans_def Let_def)
qed

lemma num_masked_spans_categories:
  assumes "1 \<le> L" and "L \<le> S" and "0 < num_masked_spans p S L mm u"
  shows "num_masked_spans p S L mm u \<le> S - L + 1"
proof -
  let ?n = "num_masked_spans p S L mm u"
  have "?n * L \<le> S" by (rule num_masked_spans_fits [OF assms(1) assms(2)])
  moreover have "(?n - 1) * 1 \<le> (?n - 1) * L"
    using assms(1) assms(3) by (intro mult_left_mono) simp_all
  ultimately show ?thesis by (simp add: algebra_simps)
qed

lemma span_mask_row_length: "length (span_mask_row S l starts) = S"
  by (simp add: span_mask_row_def)

lemma span_mask_row_nth:
  "t < S \<Longrightarrow> span_mask_row S l starts ! t \<longleftrightarrow> (\<exists>s \<in> set starts. s \<le> t \<and> t < s + l)"
  by (simp add: span_mask_row_def)

lemma span_at_start:
  assumes "s \<in> set starts" and "s + l \<le> S"
  shows "span_at l (span_mask_row S l starts) s"
proof -
  have "(take l (drop s (span_mask_row S l starts))) ! i" if "i < l" for i
  proof -
    have "s + i < S" using that assms(2) by simp
    then have "span_mask_row S l starts ! (s + i)"
      using assms(1) that by (auto simp: span_mask_row_nth intro!: bexI [of _ s])
    then show ?thesis using that assms(2) by (simp add: span_mask_row_length)
  qed
  then show ?thesis
    using assms(2) by (simp add: span_at_def span_mask_row_length list_all_length)
qed

lemma count_spans_lower:
  assumes "distinct starts" and "\<forall>s \<in> set starts. s + l \<le> S" and "1 \<le> l"
  shows "length starts \<le> count_spans l (span_mask_row S l starts)"
proof -
  let ?row = "span_mask_row S l starts"
  have "set starts \<subseteq> set (filter (span_at l ?row) [0..<length ?row])"
    using assms span_at_start [of _ starts l S] by (auto simp: span_mask_row_length)
  then have "card (set starts) \<le> card (set (filter (span_at l ?row) [0..<length ?row]))"
    by (intro card_mono) simp_all
  also have "\<dots> \<le> length (filter (span_at l ?row) [0..<length ?row])"
    by (rule card_length)
  finally show ?thesis using assms(1) by (simp add: count_spans_def distinct_card)
qed

lemma count_true_lower:
  assumes "distinct starts" and "\<forall>s \<in> set starts. s + l \<le> S" and "1 \<le> l"
  shows "length starts \<le> count_true (span_mask_row S l starts)"
proof -
  let ?f = "\<lambda>p. \<exists>s \<in> set starts. s \<le> p \<and> p < s + l"
  have c: "count_true (span_mask_row S l starts) = length (filter ?f [0..<S])"
    by (simp add: count_true_def span_mask_row_def filter_map comp_def)
  have "set starts \<subseteq> set (filter ?f [0..<S])"
    using assms by fastforce
  then have "card (set starts) \<le> card (set (filter ?f [0..<S]))"
    by (intro card_mono) simp_all
  also have "\<dots> \<le> length (filter ?f [0..<S])" by (rule card_length)
  finally show ?thesis using assms(1) c by (simp add: distinct_card)
qed

lemma count_true_upper: "count_true row \<le> length row"
  by (simp add: count_true_def)


text \<open>
  C3, amended. The masker raises ValueError exactly when \<open>mask_length < 1\<close>, or
  \<open>mask_length > sequence_length\<close>, or \<open>mask_prob\<close> is NaN (the two guards, and the
  conversion \<open>int\<close> of line 193); on a finite \<open>mask_prob\<close> this is: exactly when
  \<open>mask_length < 1\<close> or \<open>mask_length > sequence_length\<close>. For
  \<open>1 \<le> mask_length \<le> sequence_length\<close> and a finite \<open>mask_prob\<close>: when the number of
  spans is not positive, \<open>torch.multinomial\<close> raises RuntimeError and no mask is
  returned; when it is positive, \<open>torch.multinomial\<close> accepts it (it never exceeds the
  number of offsets), and with its draw a mask is returned.
\<close>

theorem compute_mask_raises:
  "(is_ValueError (compute_mask_float (b, S) mask_prob L mm u multinomial)
      \<longleftrightarrow> L < 1 \<or> S < L \<or> mask_prob = NaN)
   \<and> compute_mask_float (b, S) (Finite p) L mm u multinomial
       = compute_mask (b, S) p L mm u multinomial
   \<and> (is_ValueError (compute_mask (b, S) p L mm u multinomial) \<longleftrightarrow> L < 1 \<or> S < L)
   \<and> (1 \<le> L \<and> L \<le> S \<and> num_masked_spans p S L mm u \<le> 0
        \<longrightarrow> compute_mask (b, S) p L mm u multinomial
              = Inl (RuntimeError ''cannot sample n_sample <= 0 samples''))
   \<and> (1 \<le> L \<and> L \<le> S \<and> 0 < num_masked_spans p S L mm u
        \<longrightarrow> torch_multinomial multinomial b (nat (S - L + 1)) (num_masked_spans p S L mm u)
              = Inr (multinomial b (nat (S - L + 1)) (num_masked_spans p S L mm u)))
   \<and> (1 \<le> L \<and> L \<le> S
        \<and> multinomial_returns b (nat (S - L + 1)) (num_masked_spans p S L mm u)
             (multinomial b (nat (S - L + 1)) (num_masked_spans p S L mm u))
       \<longrightarrow> (\<exists>mask. compute_mask (b, S) p L mm u multinomial = Inr mask))"
proof (intro conjI impI)
  show "is_ValueError (compute_mask_float (b, S) mask_prob L mm u multinomial)
      \<longleftrightarrow> L < 1 \<or> S < L \<or> mask_prob = NaN"
    using compute_mask_ValueError_iff [of b S _ L mm u multinomial]
    by (cases mask_prob) (simp_all add: compute_mask_float_def)
next
  show "compute_mask_float (b, S) (Finite p) L mm u multinomial
       = compute_mask (b, S) p L mm u multinomial"
    by (simp add: compute_mask_float_def compute_mask_def)
next
  show "is_ValueError (compute_mask (b, S) p L mm u multinomial) \<longleftrightarrow> L < 1 \<or> S < L"
    by (rule compute_mask_ValueError_iff)
next
  assume "1 \<le> L \<and> L \<le> S \<and> num_masked_spans p S L mm u \<le> 0"
  then show "compute_mask (b, S) p L mm u multinomial
              = Inl (RuntimeError ''cannot sample n_sample <= 0 samples'')"
    using compute_mask_no_spans [of L S p mm u b multinomial] by blast
next
  assume h: "1 \<le> L \<and> L \<le> S \<and> 0 < num_masked_spans p S L mm u"
  then have "num_masked_spans p S L mm u \<le> S - L + 1"
    using num_masked_spans_categories [of L S p mm u] by blast
  then show "torch_multinomial multinomial b (nat (S - L + 1)) (num_masked_spans p S L mm u)
              = Inr (multinomial b (nat (S - L + 1)) (num_masked_spans p S L mm u))"
    using h by (simp add: torch_multinomial_def)
next
  assume h: "1 \<le> L \<and> L \<le> S
        \<and> multinomial_returns b (nat (S - L + 1)) (num_masked_spans p S L mm u)
             (multinomial b (nat (S - L + 1)) (num_masked_spans p S L mm u))"
  then show "\<exists>mask. compute_mask (b, S) p L mm u multinomial = Inr mask"
    using compute_mask_spec_form [of L S "num_masked_spans p S L mm u" p mm u b multinomial]
    by blast
qed

theorem compute_mask_raises_witness:
  "is_ValueError (compute_mask (2, 12) 0.8 0 2 0.5 (\<lambda>b c n. replicate b [2, 9, 4]))
   \<and> is_ValueError (compute_mask (2, 12) 0.8 13 2 0.5 (\<lambda>b c n. replicate b [2, 9, 4]))
   \<and> is_ValueError (compute_mask_float (2, 12) NaN 3 2 0.5 (\<lambda>b c n. replicate b [2, 9, 4]))
   \<and> (1::int) \<le> 5 \<and> (5::int) \<le> 10 \<and> num_masked_spans 0 10 5 0 0.5 \<le> 0
   \<and> compute_mask (2, 10) 0 5 0 0.5 (\<lambda>b c n. replicate b [2, 9, 4])
       = Inl (RuntimeError ''cannot sample n_sample <= 0 samples'')
   \<and> (1::int) \<le> 3 \<and> (3::int) \<le> 12 \<and> 0 < num_masked_spans 0.8 12 3 2 0.5
   \<and> torch_multinomial (\<lambda>b c n. replicate b [2, 9, 4]) 2 (nat (12 - 3 + 1))
        (num_masked_spans 0.8 12 3 2 0.5) = Inr [[2, 9, 4], [2, 9, 4]]
   \<and> multinomial_returns 2 (nat (12 - 3 + 1)) (num_masked_spans 0.8 12 3 2 0.5)
        ((\<lambda>b c n. replicate b [2, 9, 4]) 2 (nat (12 - 3 + 1)) (num_masked_spans 0.8 12 3 2 0.5))
   \<and> (\<exists>mask. compute_mask (2, 12) 0.8 3 2 0.5 (\<lambda>b c n. replicate b [2, 9, 4]) = Inr mask)"
proof -
  let ?m = "\<lambda>(b::nat) (c::nat) (n::int). replicate b [2::nat, 9, 4]"
  have n: "num_masked_spans 0.8 12 3 2 0.5 = 3"
    unfolding num_masked_spans_def Let_def py_int_def by simp
  have z: "num_masked_spans 0 10 5 0 0.5 = 0"
    unfolding num_masked_spans_def Let_def py_int_def by simp
  have r: "multinomial_returns 2 (nat (12 - 3 + 1)) (num_masked_spans 0.8 12 3 2 0.5)
        (?m 2 (nat (12 - 3 + 1)) (num_masked_spans 0.8 12 3 2 0.5))"
    unfolding n by (simp add: multinomial_returns_def)
  from compute_mask_raises [where b = 2 and S = 12 and p = "0.8" and L = 0 and mm = 2
      and u = "0.5" and multinomial = ?m]
  have a: "is_ValueError (compute_mask (2, 12) 0.8 0 2 0.5 ?m)" by simp
  from compute_mask_raises [where b = 2 and S = 12 and p = "0.8" and L = 13 and mm = 2
      and u = "0.5" and multinomial = ?m]
  have b: "is_ValueError (compute_mask (2, 12) 0.8 13 2 0.5 ?m)" by simp
  from compute_mask_raises [where b = 2 and S = 12 and mask_prob = NaN and L = 3 and mm = 2
      and u = "0.5" and multinomial = ?m]
  have c: "is_ValueError (compute_mask_float (2, 12) NaN 3 2 0.5 ?m)" by simp
  from compute_mask_raises [where b = 2 and S = 10 and p = 0 and L = 5 and mm = 0
      and u = "0.5" and multinomial = ?m] z
  have d: "compute_mask (2, 10) 0 5 0 0.5 ?m
       = Inl (RuntimeError ''cannot sample n_sample <= 0 samples'')" by simp
  from compute_mask_raises [where b = 2 and S = 12 and p = "0.8" and L = 3 and mm = 2
      and u = "0.5" and multinomial = ?m] n
  have e: "torch_multinomial ?m 2 (nat (12 - 3 + 1)) (num_masked_spans 0.8 12 3 2 0.5)
        = Inr [[2, 9, 4], [2, 9, 4]]" by (simp add: numeral_2_eq_2)
  from compute_mask_raises [where b = 2 and S = 12 and p = "0.8" and L = 3 and mm = 2
      and u = "0.5" and multinomial = ?m] r
  have f: "\<exists>mask. compute_mask (2, 12) 0.8 3 2 0.5 ?m = Inr mask" by simp
  from a b c d e f r n z show ?thesis by simp
qed

text \<open>
  The claim as stated fails in both directions. With \<open>mask_prob = 0\<close> and the default
  \<open>min_masks = 0\<close>, \<open>mask_length = 5\<close> is valid for 10 frames, the number of spans is
  \<open>int(0 + u) = 0\<close>, and the call of \<open>torch.multinomial\<close> raises RuntimeError: no mask
  is returned. With a NaN \<open>mask_prob\<close> and the same valid \<open>mask_length\<close>, line 193
  raises ValueError.
\<close>

theorem compute_mask_no_spans_counterexample:
  "(1::int) \<le> 5 \<and> (5::int) \<le> 10
   \<and> num_masked_spans 0 10 5 0 0.5 = 0
   \<and> compute_mask (2, 10) 0 5 0 0.5 (\<lambda>b c n. replicate b [])
       = Inl (RuntimeError ''cannot sample n_sample <= 0 samples'')
   \<and> compute_mask_float (2, 10) NaN 5 0 0.5 (\<lambda>b c n. replicate b [])
       = Inl (ValueError ''cannot convert float NaN to integer'')"
proof -
  have z: "num_masked_spans 0 10 5 0 0.5 = 0"
    unfolding num_masked_spans_def Let_def py_int_def by simp
  have z': "num_masked_spans 0 10 5 0 (1 / 2) = 0" using z by simp
  have c: "compute_mask (2, 10) 0 5 0 0.5 (\<lambda>b c n. replicate b [])
       = Inl (RuntimeError ''cannot sample n_sample <= 0 samples'')"
    by (simp add: compute_mask_def z' Let_def torch_multinomial_def bind_err_def)
  have f: "compute_mask_float (2, 10) NaN 5 0 0.5 (\<lambda>b c n. replicate b [])
       = Inl (ValueError ''cannot convert float NaN to integer'')"
    by (simp add: compute_mask_float_def)
  from z c f show ?thesis by simp
qed

text \<open>
  C1, amended. For \<open>1 \<le> mask_length \<le> sequence_length\<close> and a draw of the sampler,
  the mask is returned with one row per batch entry, and every row has
  \<open>sequence_length\<close> positions, at least \<open>num_masked_spans\<close> spans of length
  \<open>mask_length\<close>, at least that many True positions and at most \<open>sequence_length\<close>
  of them; \<open>num_masked_spans\<close> is at least the smaller of \<open>min_masks\<close> and
  \<open>sequence_length div mask_length\<close> (the clamp of line 197 may take it below
  \<open>min_masks\<close>).
\<close>

theorem span_mask_rows:
  assumes "1 \<le> L" and "L \<le> S"
    and "multinomial_returns b (nat (S - L + 1)) (num_masked_spans p S L mm u)
           (multinomial b (nat (S - L + 1)) (num_masked_spans p S L mm u))"
  shows "\<exists>mask. compute_mask (b, S) p L mm u multinomial = Inr mask
       \<and> length mask = b
       \<and> (\<forall>row \<in> set mask.
            length row = nat S
            \<and> num_masked_spans p S L mm u \<le> int (count_spans (nat L) row)
            \<and> num_masked_spans p S L mm u \<le> int (count_true row)
            \<and> count_true row \<le> nat S)
       \<and> min mm (S div L) \<le> num_masked_spans p S L mm u"
proof -
  let ?n = "num_masked_spans p S L mm u"
  let ?draws = "multinomial b (nat (S - L + 1)) ?n"
  let ?mask = "map (span_mask_row (nat S) (nat L)) ?draws"
  have m: "compute_mask (b, S) p L mm u multinomial = Inr ?mask"
    using compute_mask_spec_form [of L S ?n p mm u b multinomial] assms by simp
  have len: "length ?draws = b"
    and rows: "\<forall>starts \<in> set ?draws. int (length starts) = ?n \<and> distinct starts
                 \<and> (\<forall>s \<in> set starts. s < nat (S - L + 1))"
    using assms(3) by (auto simp: multinomial_returns_def)
  have row: "length (span_mask_row (nat S) (nat L) starts) = nat S
        \<and> ?n \<le> int (count_spans (nat L) (span_mask_row (nat S) (nat L) starts))
        \<and> ?n \<le> int (count_true (span_mask_row (nat S) (nat L) starts))
        \<and> count_true (span_mask_row (nat S) (nat L) starts) \<le> nat S"
    if "starts \<in> set ?draws" for starts
  proof -
    have d: "distinct starts" and l: "int (length starts) = ?n"
      and r: "\<forall>s \<in> set starts. s < nat (S - L + 1)"
      using rows that by blast+
    have fit: "\<forall>s \<in> set starts. s + nat L \<le> nat S"
    proof
      fix s assume "s \<in> set starts"
      then have "s < nat (S - L + 1)" using r by blast
      then show "s + nat L \<le> nat S" using assms(1) assms(2) by linarith
    qed
    have l1: "1 \<le> nat L" using assms(1) by simp
    have "length starts \<le> count_spans (nat L) (span_mask_row (nat S) (nat L) starts)"
      by (rule count_spans_lower [OF d fit l1])
    moreover have "length starts \<le> count_true (span_mask_row (nat S) (nat L) starts)"
      by (rule count_true_lower [OF d fit l1])
    moreover have "count_true (span_mask_row (nat S) (nat L) starts) \<le> nat S"
      using count_true_upper [of "span_mask_row (nat S) (nat L) starts"]
      by (simp add: span_mask_row_length)
    ultimately show ?thesis using l by (simp add: span_mask_row_length)
  qed
  have all: "\<forall>row \<in> set ?mask.
            length row = nat S
            \<and> ?n \<le> int (count_spans (nat L) row)
            \<and> ?n \<le> int (count_true row)
            \<and> count_true row \<le> nat S"
    using row by auto
  have low: "min mm (S div L) \<le> ?n"
    by (rule num_masked_spans_lower [OF assms(1)])
  from m len all low show ?thesis by simp
qed

theorem span_mask_rows_witness:
  "(1::int) \<le> 3 \<and> (3::int) \<le> 12
   \<and> multinomial_returns 2 (nat (12 - 3 + 1)) (num_masked_spans 0.8 12 3 2 0.5)
        ((\<lambda>b c n. replicate b [2, 9, 4]) 2 (nat (12 - 3 + 1)) (num_masked_spans 0.8 12 3 2 0.5))
   \<and> num_masked_spans 0.8 12 3 2 0.5 = 3
   \<and> (\<exists>mask. compute_mask (2, 12) 0.8 3 2 0.5 (\<lambda>b c n. replicate b [2, 9, 4]) = Inr mask
         \<and> length mask = 2
         \<and> list_all (\<lambda>row. length row = 12 \<and> 3 \<le> count_spans 3 row \<and> 3 \<le> count_true row
                           \<and> count_true row \<le> 12) mask)"
proof -
  let ?m = "\<lambda>(b::nat) (c::nat) (n::int). replicate b [2::nat, 9, 4]"
  have n: "num_masked_spans 0.8 12 3 2 0.5 = 3"
    unfolding num_masked_spans_def Let_def py_int_def by simp
  have r: "multinomial_returns 2 (nat (12 - 3 + 1)) (num_masked_spans 0.8 12 3 2 0.5)
        (?m 2 (nat (12 - 3 + 1)) (num_masked_spans 0.8 12 3 2 0.5))"
    unfolding n by (simp add: multinomial_returns_def)
  have h: "(1::int) \<le> 3" "(3::int) \<le> 12" by simp_all
  from span_mask_rows [where b = 2 and S = 12 and p = "0.8" and L = 3 and mm = 2
      and u = "0.5" and multinomial = ?m, OF h r]
  have "\<exists>mask. compute_mask (2, 12) 0.8 3 2 0.5 ?m = Inr mask
         \<and> length mask = 2
         \<and> list_all (\<lambda>row. length row = 12 \<and> 3 \<le> count_spans 3 row \<and> 3 \<le> count_true row
                           \<and> count_true row \<le> 12) mask"
    unfolding n by (simp add: list_all_iff)
  with n r show ?thesis by simp
qed

text \<open>
  The claim as stated fails where the clamp applies. With the parameters of
  \<open>Hubert.mask\<close> (\<open>mask_prob = 0.8\<close>, \<open>mask_length = 10\<close>, \<open>min_masks = 2\<close>) and a
  sequence of 10 frames, \<open>2 * 10 > 10\<close>, so one span is drawn: the row holds one span
  of length 10, not two.
\<close>

theorem span_mask_min_masks_counterexample:
  "(1::int) \<le> 10 \<and> (10::int) \<le> 10
   \<and> multinomial_returns 1 (nat (10 - 10 + 1)) (num_masked_spans 0.8 10 10 2 0.5)
        ((\<lambda>b c n. replicate b [0]) 1 (nat (10 - 10 + 1)) (num_masked_spans 0.8 10 10 2 0.5))
   \<and> compute_mask (1, 10) 0.8 10 2 0.5 (\<lambda>b c n. replicate b [0]) = Inr [replicate 10 True]
   \<and> count_spans (nat 10) (replicate 10 True) = 1
   \<and> \<not> (2::int) \<le> int (count_spans (nat 10) (replicate 10 True))"
proof -
  let ?m = "\<lambda>(b::nat) (c::nat) (n::int). replicate b [0::nat]"
  have n: "num_masked_spans 0.8 10 10 2 0.5 = 1"
    unfolding num_masked_spans_def Let_def py_int_def by simp
  have r: "multinomial_returns 1 (nat (10 - 10 + 1)) (num_masked_spans 0.8 10 10 2 0.5)
        (?m 1 (nat (10 - 10 + 1)) (num_masked_spans 0.8 10 10 2 0.5))"
    unfolding n by (simp add: multinomial_returns_def)
  have c: "compute_mask (1, 10) 0.8 10 2 0.5 ?m = Inr [replicate 10 True]"
  proof -
    have n': "num_masked_spans (4 / 5) 10 10 2 (1 / 2) = 1" using n by simp
    show ?thesis
      by (simp add: compute_mask_def n' Let_def torch_multinomial_def expand_indices_def
            expand_offsets_def tensor_add_def bind_err_def numeral_eq_Suc upt_rec)
  qed
  have s: "count_spans (nat 10) (replicate 10 True) = 1"
    by code_simp
  from n r c s show ?thesis by simp
qed



section \<open>The feature extractor\<close>

lemma windows_length:
  "0 < k \<Longrightarrow> 0 < s \<Longrightarrow>
     length (windows k s xs) = (if length xs < k then 0 else (length xs - k) div s + 1)"
proof (induction k s xs rule: windows.induct)
  case (1 k s xs)
  show ?case
  proof (cases "length xs < k")
    case True
    then show ?thesis by (simp add: windows.simps [of k s xs])
  next
    case False
    with 1 have ih: "length (windows k s (drop s xs)) =
        (if length xs - s < k then 0 else (length xs - s - k) div s + 1)"
      by simp
    have w: "windows k s xs = take k xs # windows k s (drop s xs)"
      using False 1 by (simp add: windows.simps [of k s xs])
    show ?thesis
    proof (cases "length xs - s < k")
      case True
      then have "(length xs - k) div s = 0" using False 1 by simp
      then show ?thesis using w ih True False by simp
    next
      case geq: False
      then have "(length xs - k) div s = Suc ((length xs - k - s) div s)"
        using False 1 by (simp add: le_div_geq)
      moreover have "length xs - s - k = length xs - k - s" by simp
      ultimately show ?thesis using w ih geq False by simp
    qed
  qed
qed

lemma bind_err_Inr:
  "bind_err r f = Inr y \<Longrightarrow> \<exists>v. r = Inr v \<and> f v = Inr y"
  by (cases r) (simp_all add: bind_err_def)

lemma conv1d_item_ok:
  assumes "length item = in_channels c" and "0 < in_channels c"
    and "\<forall>ch \<in> set item. length ch = t"
    and "kernel_size c \<le> t" and "0 < kernel_size c" and "0 < stride c"
  shows "\<exists>y. conv1d_item c item = Inr y \<and> length y = out_channels c
           \<and> (\<forall>ch \<in> set y. length ch = (t - kernel_size c) div stride c + 1)"
proof -
  from assms(1) assms(2) obtain ch0 rest where item: "item = ch0 # rest"
    by (cases item) auto
  then have l0: "length ch0 = t" using assms(3) by simp
  show ?thesis
    using assms l0 by (auto simp: item conv1d_item_def windows_length)
qed

lemma conv1d_item_fail:
  assumes "\<forall>ch \<in> set item. length ch = t" and "t < kernel_size c"
  shows "\<exists>e. conv1d_item c item = Inl e"
  using assms by (cases item) (auto simp: conv1d_item_def)

lemma map_err_ok:
  assumes "\<forall>x \<in> set xs. \<exists>y. f x = Inr y \<and> P y"
  shows "\<exists>ys. map_err f xs = Inr ys \<and> length ys = length xs \<and> (\<forall>y \<in> set ys. P y)"
  using assms
proof (induction xs)
  case Nil
  then show ?case by simp
next
  case (Cons x xs)
  then obtain y where y: "f x = Inr y" "P y" by auto
  from Cons obtain ys where ys: "map_err f xs = Inr ys" "length ys = length xs"
      "\<forall>y \<in> set ys. P y" by auto
  show ?case using y ys by (simp add: bind_err_def)
qed

lemma map_err_fail:
  assumes "xs \<noteq> []" and "\<exists>e. f (hd xs) = Inl e"
  shows "\<exists>e. map_err f xs = Inl e"
  using assms by (cases xs) (auto simp: bind_err_def)

lemma conv1d_ok:
  assumes "has_shape b (in_channels c) t x" and "0 < in_channels c"
    and "kernel_size c \<le> t" and "0 < kernel_size c" and "0 < stride c"
  shows "\<exists>y. conv1d c x = Inr y
           \<and> has_shape b (out_channels c) ((t - kernel_size c) div stride c + 1) y"
proof -
  have "\<forall>item \<in> set x. \<exists>y. conv1d_item c item = Inr y \<and> (length y = out_channels c
           \<and> (\<forall>ch \<in> set y. length ch = (t - kernel_size c) div stride c + 1))"
    using assms conv1d_item_ok [of _ c t] by (simp add: has_shape_def)
  from map_err_ok [OF this] show ?thesis
    using assms(1) by (auto simp: conv1d_def has_shape_def)
qed

lemma conv1d_fail:
  assumes "has_shape b (in_channels c) t x" and "0 < b" and "t < kernel_size c"
  shows "\<exists>e. conv1d c x = Inl e"
proof -
  have ne: "x \<noteq> []" using assms by (auto simp: has_shape_def)
  then have "hd x \<in> set x" by simp
  then have "\<forall>ch \<in> set (hd x). length ch = t" using assms(1) by (simp add: has_shape_def)
  from conv1d_item_fail [OF this assms(3)] show ?thesis
    unfolding conv1d_def by (rule map_err_fail [OF ne])
qed

lemma conv1d_Inr:
  assumes "has_shape b (in_channels c) t x" and "0 < b" and "0 < in_channels c"
    and "0 < kernel_size c" and "0 < stride c" and "conv1d c x = Inr y"
  shows "kernel_size c \<le> t
       \<and> has_shape b (out_channels c) ((t - kernel_size c) div stride c + 1) y"
proof (cases "t < kernel_size c")
  case True
  from conv1d_fail [OF assms(1) assms(2) True] assms(6) show ?thesis by simp
next
  case False
  then have k: "kernel_size c \<le> t" by simp
  from conv1d_ok [OF assms(1) assms(3) k assms(4) assms(5)] assms(6) k
  show ?thesis by simp
qed

lemma group_norm_shape: "has_shape b c t x \<Longrightarrow> has_shape b c t (group_norm g x)"
  by (auto simp: has_shape_def group_norm_def group_norm_channel_def Let_def set_zip)

lemma F_gelu_shape: "has_shape b c t x \<Longrightarrow> has_shape b c t (F_gelu gelu x)"
  by (auto simp: has_shape_def F_gelu_def)


lemma init_fields:
  "in_channels (conv0 (FeatureExtractor_init w g)) = 1"
  "out_channels (conv0 (FeatureExtractor_init w g)) = 512"
  "kernel_size (conv0 (FeatureExtractor_init w g)) = 10"
  "stride (conv0 (FeatureExtractor_init w g)) = 5"
  "in_channels (conv1 (FeatureExtractor_init w g)) = 512"
  "out_channels (conv1 (FeatureExtractor_init w g)) = 512"
  "kernel_size (conv1 (FeatureExtractor_init w g)) = 3"
  "stride (conv1 (FeatureExtractor_init w g)) = 2"
  "in_channels (conv2 (FeatureExtractor_init w g)) = 512"
  "out_channels (conv2 (FeatureExtractor_init w g)) = 512"
  "kernel_size (conv2 (FeatureExtractor_init w g)) = 3"
  "stride (conv2 (FeatureExtractor_init w g)) = 2"
  "in_channels (conv3 (FeatureExtractor_init w g)) = 512"
  "out_channels (conv3 (FeatureExtractor_init w g)) = 512"
  "kernel_size (conv3 (FeatureExtractor_init w g)) = 3"
  "stride (conv3 (FeatureExtractor_init w g)) = 2"
  "in_channels (conv4 (FeatureExtractor_init w g)) = 512"
  "out_channels (conv4 (FeatureExtractor_init w g)) = 512"
  "kernel_size (conv4 (FeatureExtractor_init w g)) = 3"
  "stride (conv4 (FeatureExtractor_init w g)) = 2"
  "in_channels (conv5 (FeatureExtractor_init w g)) = 512"
  "out_channels (conv5 (FeatureExtractor_init w g)) = 512"
  "kernel_size (conv5 (FeatureExtractor_init w g)) = 2"
  "stride (conv5 (FeatureExtractor_init w g)) = 2"
  "in_channels (conv6 (FeatureExtractor_init w g)) = 512"
  "out_channels (conv6 (FeatureExtractor_init w g)) = 512"
  "kernel_size (conv6 (FeatureExtractor_init w g)) = 2"
  "stride (conv6 (FeatureExtractor_init w g)) = 2"
  by (simp_all add: FeatureExtractor_init_def Conv1d_init_def)

text \<open>One stage of the extractor on a tensor of known shape.\<close>

lemma stage_ok:
  assumes "has_shape b (in_channels c) t x" and "0 < in_channels c"
    and "kernel_size c \<le> t" and "0 < kernel_size c" and "0 < stride c"
    and "\<And>z. has_shape b (out_channels c) ((t - kernel_size c) div stride c + 1) z
            \<Longrightarrow> has_shape b (out_channels c) ((t - kernel_size c) div stride c + 1) (post z)"
  shows "\<exists>y. conv1d c x = Inr y
           \<and> has_shape b (out_channels c) ((t - kernel_size c) div stride c + 1) (post y)"
  using conv1d_ok [OF assms(1-5)] assms(6) by blast

lemma forward_ok:
  assumes x: "has_shape b 1 N x" and N: "400 \<le> N"
  shows "\<exists>y. FeatureExtractor_forward gelu (FeatureExtractor_init w g) x = Inr y
       \<and> has_shape b 512
           ((((((((N - 10) div 5 + 1 - 3) div 2 + 1 - 3) div 2 + 1 - 3) div 2 + 1 - 3) div 2 + 1 - 2) div 2 + 1 - 2) div 2 + 1) y"
proof -
  let ?fe = "FeatureExtractor_init w g"
  define T1 where "T1 = (N - 10) div 5 + 1"
  define T2 where "T2 = (T1 - 3) div 2 + 1"
  define T3 where "T3 = (T2 - 3) div 2 + 1"
  define T4 where "T4 = (T3 - 3) div 2 + 1"
  define T5 where "T5 = (T4 - 3) div 2 + 1"
  define T6 where "T6 = (T5 - 2) div 2 + 1"
  define T7 where "T7 = (T6 - 2) div 2 + 1"
  have b1: "79 \<le> T1" using N unfolding T1_def by presburger
  have b2: "39 \<le> T2" using b1 unfolding T2_def by presburger
  have b3: "19 \<le> T3" using b2 unfolding T3_def by presburger
  have b4: "9 \<le> T4" using b3 unfolding T4_def by presburger
  have b5: "4 \<le> T5" using b4 unfolding T5_def by presburger
  have b6: "2 \<le> T6" using b5 unfolding T6_def by presburger
  from conv1d_ok [of b "conv0 ?fe" N x] x N
  obtain x1 where c0: "conv1d (conv0 ?fe) x = Inr x1" and s1: "has_shape b 512 T1 x1"
    by (auto simp: init_fields T1_def)
  let ?x1 = "F_gelu gelu (group_norm (norm0 ?fe) x1)"
  have s1': "has_shape b 512 T1 ?x1"
    by (intro F_gelu_shape group_norm_shape s1)
  from conv1d_ok [of b "conv1 ?fe" T1 ?x1] s1' b1
  obtain x2 where c1: "conv1d (conv1 ?fe) ?x1 = Inr x2" and s2: "has_shape b 512 T2 x2"
    by (auto simp: init_fields T2_def)
  have s2': "has_shape b 512 T2 (F_gelu gelu x2)" by (intro F_gelu_shape s2)
  from conv1d_ok [of b "conv2 ?fe" T2 "F_gelu gelu x2"] s2' b2
  obtain x3 where c2: "conv1d (conv2 ?fe) (F_gelu gelu x2) = Inr x3"
    and s3: "has_shape b 512 T3 x3"
    by (auto simp: init_fields T3_def)
  have s3': "has_shape b 512 T3 (F_gelu gelu x3)" by (intro F_gelu_shape s3)
  from conv1d_ok [of b "conv3 ?fe" T3 "F_gelu gelu x3"] s3' b3
  obtain x4 where c3: "conv1d (conv3 ?fe) (F_gelu gelu x3) = Inr x4"
    and s4: "has_shape b 512 T4 x4"
    by (auto simp: init_fields T4_def)
  have s4': "has_shape b 512 T4 (F_gelu gelu x4)" by (intro F_gelu_shape s4)
  from conv1d_ok [of b "conv4 ?fe" T4 "F_gelu gelu x4"] s4' b4
  obtain x5 where c4: "conv1d (conv4 ?fe) (F_gelu gelu x4) = Inr x5"
    and s5: "has_shape b 512 T5 x5"
    by (auto simp: init_fields T5_def)
  have s5': "has_shape b 512 T5 (F_gelu gelu x5)" by (intro F_gelu_shape s5)
  from conv1d_ok [of b "conv5 ?fe" T5 "F_gelu gelu x5"] s5' b5
  obtain x6 where c5: "conv1d (conv5 ?fe) (F_gelu gelu x5) = Inr x6"
    and s6: "has_shape b 512 T6 x6"
    by (auto simp: init_fields T6_def)
  have s6': "has_shape b 512 T6 (F_gelu gelu x6)" by (intro F_gelu_shape s6)
  from conv1d_ok [of b "conv6 ?fe" T6 "F_gelu gelu x6"] s6' b6
  obtain x7 where c6: "conv1d (conv6 ?fe) (F_gelu gelu x6) = Inr x7"
    and s7: "has_shape b 512 T7 x7"
    by (auto simp: init_fields T7_def)
  have s7': "has_shape b 512 T7 (F_gelu gelu x7)" by (intro F_gelu_shape s7)
  have "FeatureExtractor_forward gelu ?fe x = Inr (F_gelu gelu x7)"
    by (simp add: FeatureExtractor_forward_def bind_err_def Let_def c0 c1 c2 c3 c4 c5 c6)
  then show ?thesis
    using s7' unfolding T7_def T6_def T5_def T4_def T3_def T2_def T1_def by blast
qed

lemma forward_Inr_needs_400:
  assumes x: "has_shape b 1 N x" and b: "0 < b"
    and r: "FeatureExtractor_forward gelu (FeatureExtractor_init w g) x = Inr y"
  shows "400 \<le> N"
proof -
  let ?fe = "FeatureExtractor_init w g"
  from r obtain x1 where c0: "conv1d (conv0 ?fe) x = Inr x1"
    and r1: "bind_err (conv1d (conv1 ?fe) (F_gelu gelu (group_norm (norm0 ?fe) x1))) (\<lambda>x.
     bind_err (conv1d (conv2 ?fe) (F_gelu gelu x)) (\<lambda>x.
     bind_err (conv1d (conv3 ?fe) (F_gelu gelu x)) (\<lambda>x.
     bind_err (conv1d (conv4 ?fe) (F_gelu gelu x)) (\<lambda>x.
     bind_err (conv1d (conv5 ?fe) (F_gelu gelu x)) (\<lambda>x.
     bind_err (conv1d (conv6 ?fe) (F_gelu gelu x)) (\<lambda>x.
     Inr (F_gelu gelu x))))))) = Inr y"
    unfolding FeatureExtractor_forward_def Let_def by (blast dest: bind_err_Inr)
  from conv1d_Inr [of b "conv0 ?fe" N x x1] x b c0
  have k0: "10 \<le> N" and s1: "has_shape b 512 ((N - 10) div 5 + 1) x1"
    by (simp_all add: init_fields)
  define T1 where "T1 = (N - 10) div 5 + 1"
  have s1': "has_shape b 512 T1 (F_gelu gelu (group_norm (norm0 ?fe) x1))"
    unfolding T1_def by (intro F_gelu_shape group_norm_shape s1)
  from r1 obtain x2 where c1: "conv1d (conv1 ?fe) (F_gelu gelu (group_norm (norm0 ?fe) x1)) = Inr x2"
    and r2: "bind_err (conv1d (conv2 ?fe) (F_gelu gelu x2)) (\<lambda>x.
     bind_err (conv1d (conv3 ?fe) (F_gelu gelu x)) (\<lambda>x.
     bind_err (conv1d (conv4 ?fe) (F_gelu gelu x)) (\<lambda>x.
     bind_err (conv1d (conv5 ?fe) (F_gelu gelu x)) (\<lambda>x.
     bind_err (conv1d (conv6 ?fe) (F_gelu gelu x)) (\<lambda>x.
     Inr (F_gelu gelu x)))))) = Inr y"
    by (blast dest: bind_err_Inr)
  from conv1d_Inr [OF _ b _ _ _ c1, of T1] s1'
  have k1: "3 \<le> T1" and s2: "has_shape b 512 ((T1 - 3) div 2 + 1) x2"
    by (simp_all add: init_fields)
  define T2 where "T2 = (T1 - 3) div 2 + 1"
  have s2': "has_shape b 512 T2 (F_gelu gelu x2)"
    unfolding T2_def by (intro F_gelu_shape s2)
  from r2 obtain x3 where c2: "conv1d (conv2 ?fe) (F_gelu gelu x2) = Inr x3"
    and r3: "bind_err (conv1d (conv3 ?fe) (F_gelu gelu x3)) (\<lambda>x.
     bind_err (conv1d (conv4 ?fe) (F_gelu gelu x)) (\<lambda>x.
     bind_err (conv1d (conv5 ?fe) (F_gelu gelu x)) (\<lambda>x.
     bind_err (conv1d (conv6 ?fe) (F_gelu gelu x)) (\<lambda>x.
     Inr (F_gelu gelu x))))) = Inr y"
    by (blast dest: bind_err_Inr)
  from conv1d_Inr [OF _ b _ _ _ c2, of T2] s2'
  have k2: "3 \<le> T2" and s3: "has_shape b 512 ((T2 - 3) div 2 + 1) x3"
    by (simp_all add: init_fields)
  define T3 where "T3 = (T2 - 3) div 2 + 1"
  have s3': "has_shape b 512 T3 (F_gelu gelu x3)"
    unfolding T3_def by (intro F_gelu_shape s3)
  from r3 obtain x4 where c3: "conv1d (conv3 ?fe) (F_gelu gelu x3) = Inr x4"
    and r4: "bind_err (conv1d (conv4 ?fe) (F_gelu gelu x4)) (\<lambda>x.
     bind_err (conv1d (conv5 ?fe) (F_gelu gelu x)) (\<lambda>x.
     bind_err (conv1d (conv6 ?fe) (F_gelu gelu x)) (\<lambda>x.
     Inr (F_gelu gelu x)))) = Inr y"
    by (blast dest: bind_err_Inr)
  from conv1d_Inr [OF _ b _ _ _ c3, of T3] s3'
  have k3: "3 \<le> T3" and s4: "has_shape b 512 ((T3 - 3) div 2 + 1) x4"
    by (simp_all add: init_fields)
  define T4 where "T4 = (T3 - 3) div 2 + 1"
  have s4': "has_shape b 512 T4 (F_gelu gelu x4)"
    unfolding T4_def by (intro F_gelu_shape s4)
  from r4 obtain x5 where c4: "conv1d (conv4 ?fe) (F_gelu gelu x4) = Inr x5"
    and r5: "bind_err (conv1d (conv5 ?fe) (F_gelu gelu x5)) (\<lambda>x.
     bind_err (conv1d (conv6 ?fe) (F_gelu gelu x)) (\<lambda>x.
     Inr (F_gelu gelu x))) = Inr y"
    by (blast dest: bind_err_Inr)
  from conv1d_Inr [OF _ b _ _ _ c4, of T4] s4'
  have k4: "3 \<le> T4" and s5: "has_shape b 512 ((T4 - 3) div 2 + 1) x5"
    by (simp_all add: init_fields)
  define T5 where "T5 = (T4 - 3) div 2 + 1"
  have s5': "has_shape b 512 T5 (F_gelu gelu x5)"
    unfolding T5_def by (intro F_gelu_shape s5)
  from r5 obtain x6 where c5: "conv1d (conv5 ?fe) (F_gelu gelu x5) = Inr x6"
    and r6: "bind_err (conv1d (conv6 ?fe) (F_gelu gelu x6)) (\<lambda>x.
     Inr (F_gelu gelu x)) = Inr y"
    by (blast dest: bind_err_Inr)
  from conv1d_Inr [OF _ b _ _ _ c5, of T5] s5'
  have k5: "2 \<le> T5" and s6: "has_shape b 512 ((T5 - 2) div 2 + 1) x6"
    by (simp_all add: init_fields)
  define T6 where "T6 = (T5 - 2) div 2 + 1"
  have s6': "has_shape b 512 T6 (F_gelu gelu x6)"
    unfolding T6_def by (intro F_gelu_shape s6)
  from r6 obtain x7 where c6: "conv1d (conv6 ?fe) (F_gelu gelu x6) = Inr x7"
    by (blast dest: bind_err_Inr)
  from conv1d_Inr [OF _ b _ _ _ c6, of T6] s6'
  have k6: "2 \<le> T6" by (simp_all add: init_fields)
  have "4 \<le> T5" using k6 unfolding T6_def by presburger
  then have "9 \<le> T4" unfolding T5_def by presburger
  then have "19 \<le> T3" unfolding T4_def by presburger
  then have "39 \<le> T2" unfolding T3_def by presburger
  then have "79 \<le> T1" unfolding T2_def by presburger
  then show ?thesis unfolding T1_def by presburger
qed

lemma spec_output_length_nat:
  assumes "400 \<le> N"
  shows "spec_output_length (int N) =
     int ((((((((N - 10) div 5 + 1 - 3) div 2 + 1 - 3) div 2 + 1 - 3) div 2 + 1 - 3) div 2 + 1 - 2) div 2 + 1 - 2) div 2 + 1)"
proof -
  define T1 where "T1 = (N - 10) div 5 + 1"
  define T2 where "T2 = (T1 - 3) div 2 + 1"
  define T3 where "T3 = (T2 - 3) div 2 + 1"
  define T4 where "T4 = (T3 - 3) div 2 + 1"
  define T5 where "T5 = (T4 - 3) div 2 + 1"
  define T6 where "T6 = (T5 - 2) div 2 + 1"
  define T7 where "T7 = (T6 - 2) div 2 + 1"
  have b1: "79 \<le> T1" using assms unfolding T1_def by presburger
  have b2: "39 \<le> T2" using b1 unfolding T2_def by presburger
  have b3: "19 \<le> T3" using b2 unfolding T3_def by presburger
  have b4: "9 \<le> T4" using b3 unfolding T4_def by presburger
  have b5: "4 \<le> T5" using b4 unfolding T5_def by presburger
  have b6: "2 \<le> T6" using b5 unfolding T6_def by presburger
  have i1: "int T1 = (int N - 10) div 5 + 1"
    using assms unfolding T1_def by (simp add: of_nat_diff zdiv_int)
  have i2: "int T2 = (int T1 - 3) div 2 + 1"
    using b1 unfolding T2_def by (simp add: of_nat_diff zdiv_int)
  have i3: "int T3 = (int T2 - 3) div 2 + 1"
    using b2 unfolding T3_def by (simp add: of_nat_diff zdiv_int)
  have i4: "int T4 = (int T3 - 3) div 2 + 1"
    using b3 unfolding T4_def by (simp add: of_nat_diff zdiv_int)
  have i5: "int T5 = (int T4 - 3) div 2 + 1"
    using b4 unfolding T5_def by (simp add: of_nat_diff zdiv_int)
  have i6: "int T6 = (int T5 - 2) div 2 + 1"
    using b5 unfolding T6_def by (simp add: of_nat_diff zdiv_int)
  have i7: "int T7 = (int T6 - 2) div 2 + 1"
    using b6 unfolding T7_def by (simp add: of_nat_diff zdiv_int)
  have u: "spec_output_length n = (((((((n - 10) div 5 + 1 - 3) div 2 + 1 - 3) div 2 + 1 - 3) div 2 + 1 - 3) div 2 + 1 - 2) div 2 + 1 - 2) div 2 + 1" for n
    unfolding spec_output_length_def conv_output_length_def
    by (simp only: zip_Cons_Cons zip_Nil foldl_Cons foldl_Nil prod.case)
  have "spec_output_length (int N) = int T7"
    by (simp only: u i7 i6 i5 i4 i3 i2 i1)
  then show ?thesis
    unfolding T7_def T6_def T5_def T4_def T3_def T2_def T1_def .
qed


text \<open>
  C9, amended. On a batch of \<open>b\<close> single-channel waveforms of \<open>N \<ge> 400\<close> samples
  the extractor returns, and its output has 512 channels whose length is the
  composition over the seven stages of \<open>L' = floor((L - kernel) / stride) + 1\<close> with
  kernels 10, 3, 3, 3, 3, 2, 2 and strides 5, 2, 2, 2, 2, 2, 2: a function of \<open>N\<close>
  alone, whatever the weights, the samples and the activation are. For \<open>N < 400\<close> a
  kernel does not fit, the library raises, and there is no output.
\<close>

theorem feature_extractor_output_length:
  assumes "has_shape b 1 N x"
  shows "(400 \<le> N \<longrightarrow>
           (\<exists>y. FeatureExtractor_forward gelu (FeatureExtractor_init w g) x = Inr y
              \<and> has_shape b 512 (nat (spec_output_length (int N))) y
              \<and> (\<forall>item \<in> set y. \<forall>ch \<in> set item.
                    int (length ch) = spec_output_length (int N))))
       \<and> (N < 400 \<and> 0 < b \<longrightarrow>
           (\<exists>e. FeatureExtractor_forward gelu (FeatureExtractor_init w g) x = Inl e))"
proof (intro conjI impI)
  assume N: "400 \<le> N"
  define T where "T = (((((((N - 10) div 5 + 1 - 3) div 2 + 1 - 3) div 2 + 1 - 3) div 2 + 1 - 3) div 2 + 1 - 2) div 2 + 1 - 2) div 2 + 1"
  have e: "spec_output_length (int N) = int T"
    unfolding T_def by (rule spec_output_length_nat [OF N])
  have "\<exists>y. FeatureExtractor_forward gelu (FeatureExtractor_init w g) x = Inr y
       \<and> has_shape b 512 T y"
    unfolding T_def by (rule forward_ok [OF assms N])
  then obtain y where y: "FeatureExtractor_forward gelu (FeatureExtractor_init w g) x = Inr y"
    and s0: "has_shape b 512 T y"
    by blast
  have s: "has_shape b 512 (nat (spec_output_length (int N))) y"
    unfolding e using s0 by simp
  have a: "\<forall>item \<in> set y. \<forall>ch \<in> set item. int (length ch) = spec_output_length (int N)"
    unfolding e using s0 by (simp add: has_shape_def)
  from y s a show "\<exists>y. FeatureExtractor_forward gelu (FeatureExtractor_init w g) x = Inr y
              \<and> has_shape b 512 (nat (spec_output_length (int N))) y
              \<and> (\<forall>item \<in> set y. \<forall>ch \<in> set item.
                    int (length ch) = spec_output_length (int N))"
    by blast
next
  assume h: "N < 400 \<and> 0 < b"
  show "\<exists>e. FeatureExtractor_forward gelu (FeatureExtractor_init w g) x = Inl e"
  proof (cases "FeatureExtractor_forward gelu (FeatureExtractor_init w g) x")
    case (Inl e)
    then show ?thesis by blast
  next
    case (Inr y)
    from h have b: "0 < b" by simp
    from forward_Inr_needs_400 [OF assms b Inr] h show ?thesis by simp
  qed
qed

theorem feature_extractor_output_length_witness:
  "has_shape 1 1 400 [[replicate 400 (0::real)]]
   \<and> (400::nat) \<le> 400
   \<and> spec_output_length (int 400) = 1
   \<and> spec_output_length 16080 = 50
   \<and> (\<exists>y. FeatureExtractor_forward (\<lambda>v. v)
             (FeatureExtractor_init (\<lambda>i out c j. 0)
                \<lparr>gn_weight = \<lambda>c. 1, gn_bias = \<lambda>c. 0, gn_eps = 1 / 100000\<rparr>)
             [[replicate 400 0]] = Inr y
          \<and> has_shape 1 512 1 y)
   \<and> has_shape 1 1 5 [[replicate 5 (0::real)]]
   \<and> (5::nat) < 400 \<and> (0::nat) < 1
   \<and> (\<exists>e. FeatureExtractor_forward (\<lambda>v. v)
             (FeatureExtractor_init (\<lambda>i out c j. 0)
                \<lparr>gn_weight = \<lambda>c. 1, gn_bias = \<lambda>c. 0, gn_eps = 1 / 100000\<rparr>)
             [[replicate 5 0]] = Inl e)"
proof -
  let ?g = "\<lparr>gn_weight = \<lambda>c. 1, gn_bias = \<lambda>c. 0, gn_eps = 1 / 100000\<rparr>"
  have s: "has_shape 1 1 400 [[replicate 400 (0::real)]]"
    by (simp add: has_shape_def)
  have s5: "has_shape 1 1 5 [[replicate 5 (0::real)]]"
    by (simp add: has_shape_def)
  have l: "spec_output_length (int 400) = 1"
    by (simp add: spec_output_length_def conv_output_length_def)
  have l2: "spec_output_length 16080 = 50"
    by (simp add: spec_output_length_def conv_output_length_def)
  from feature_extractor_output_length [OF s, of "\<lambda>v. v" "\<lambda>i out c j. 0" ?g]
  have a: "\<exists>y. FeatureExtractor_forward (\<lambda>v. v) (FeatureExtractor_init (\<lambda>i out c j. 0) ?g)
             [[replicate 400 0]] = Inr y
          \<and> has_shape 1 512 1 y"
    unfolding l by auto
  from feature_extractor_output_length [OF s5, of "\<lambda>v. v" "\<lambda>i out c j. 0" ?g]
  have b: "\<exists>e. FeatureExtractor_forward (\<lambda>v. v) (FeatureExtractor_init (\<lambda>i out c j. 0) ?g)
             [[replicate 5 0]] = Inl e"
    by simp
  from s s5 l l2 a b show ?thesis by simp
qed

text \<open>
  The claim as stated fails on short inputs. On 5 samples the first kernel (10 taps)
  does not fit and the extractor raises, while the composed formula gives \<open>-1\<close>; on
  399 samples the extractor raises as well (the last kernel does not fit), while the
  formula gives \<open>0\<close>.
\<close>

theorem feature_extractor_short_input_counterexample:
  "has_shape 1 1 5 [[replicate 5 (0::real)]]
   \<and> FeatureExtractor_forward (\<lambda>v. v)
        (FeatureExtractor_init (\<lambda>i out c j. 0)
           \<lparr>gn_weight = \<lambda>c. 1, gn_bias = \<lambda>c. 0, gn_eps = 1 / 100000\<rparr>)
        [[replicate 5 0]]
       = Inl (RuntimeError ''Kernel size can not be greater than actual input size'')
   \<and> spec_output_length 5 = - 1
   \<and> has_shape 1 1 399 [[replicate 399 (0::real)]]
   \<and> isl (FeatureExtractor_forward (\<lambda>v. v)
        (FeatureExtractor_init (\<lambda>i out c j. 0)
           \<lparr>gn_weight = \<lambda>c. 1, gn_bias = \<lambda>c. 0, gn_eps = 1 / 100000\<rparr>)
        [[replicate 399 0]])
   \<and> spec_output_length 399 = 0"
proof -
  let ?g = "\<lparr>gn_weight = \<lambda>c. 1, gn_bias = \<lambda>c. 0, gn_eps = 1 / 100000\<rparr>"
  let ?fe = "FeatureExtractor_init (\<lambda>i out c j. 0) ?g"
  have s5: "has_shape 1 1 5 [[replicate 5 (0::real)]]"
    by (simp add: has_shape_def)
  have s399: "has_shape 1 1 399 [[replicate 399 (0::real)]]"
    by (simp add: has_shape_def)
  have c: "conv1d (conv0 ?fe) [[replicate 5 0]]
       = Inl (RuntimeError ''Kernel size can not be greater than actual input size'')"
    by (simp add: conv1d_def conv1d_item_def bind_err_def FeatureExtractor_init_def
          Conv1d_init_def)
  have f: "FeatureExtractor_forward (\<lambda>v. v) ?fe [[replicate 5 0]]
       = Inl (RuntimeError ''Kernel size can not be greater than actual input size'')"
    unfolding FeatureExtractor_forward_def c by (simp add: bind_err_def)
  have l5: "spec_output_length 5 = - 1"
    by (simp add: spec_output_length_def conv_output_length_def)
  have l399: "spec_output_length 399 = 0"
    by (simp add: spec_output_length_def conv_output_length_def)
  have i: "isl (FeatureExtractor_forward (\<lambda>v. v) ?fe [[replicate 399 0]])"
  proof (cases "FeatureExtractor_forward (\<lambda>v. v) ?fe [[replicate 399 0]]")
    case (Inl e)
    then show ?thesis by simp
  next
    case (Inr y)
    have b: "(0::nat) < 1" by simp
    from forward_Inr_needs_400 [OF s399 b Inr] show ?thesis by simp
  qed
  from s5 f l5 s399 i l399 show ?thesis by simp
qed

section \<open>Span masking in Hubert.encode\<close>

lemma has_shape_nth:
  "has_shape b c t x \<longleftrightarrow>
     length x = b \<and> (\<forall>i < b. length (x ! i) = c \<and> (\<forall>j < c. length (x ! i ! j) = t))"
  unfolding has_shape_def by (auto simp: all_set_conv_all_nth)

lemma has_shape_sizes:
  assumes "has_shape b t c x" and "0 < b"
  shows "size0 x = b" and "size1 x = t"
proof -
  from assms obtain item rest where x: "x = item # rest"
    by (cases x) (auto simp: has_shape_def)
  show "size0 x = b" using assms(1) by (simp add: size0_def has_shape_def)
  show "size1 x = t" using assms(1) by (simp add: size1_def has_shape_def x)
qed

lemma masked_assign_ok:
  assumes x: "has_shape b t (length v) x"
    and l: "length msk = b" and r: "\<forall>row \<in> set msk. length row = t"
  shows "\<exists>x'. masked_assign x msk v = Inr x'
           \<and> has_shape b t (length v) x'
           \<and> (\<forall>i < b. \<forall>j < t. x' ! i ! j = (if msk ! i ! j then v else x ! i ! j))"
proof -
  let ?f = "\<lambda>frame m. if m then (if length v = length frame then v
                          else replicate (length frame) (hd v)) else frame"
  let ?x' = "map2 (map2 ?f) x msk"
  have ok: "list_all (list_all (\<lambda>frame. length v = length frame \<or> length v = 1)) x"
    using x by (auto simp: has_shape_def list_all_iff)
  then have e: "masked_assign x msk v = Inr ?x'"
    by (simp add: masked_assign_def)
  have lx: "length x = b" and li: "\<And>i. i < b \<Longrightarrow> length (x ! i) = t"
    and lf: "\<And>i j. i < b \<Longrightarrow> j < t \<Longrightarrow> length (x ! i ! j) = length v"
    using x by (simp_all add: has_shape_nth)
  have lm: "\<And>i. i < b \<Longrightarrow> length (msk ! i) = t"
    using l r by simp
  have n: "?x' ! i ! j = (if msk ! i ! j then v else x ! i ! j)" if "i < b" "j < t" for i j
    using that lx l li lm lf by simp
  have s: "has_shape b t (length v) ?x'"
    unfolding has_shape_nth using lx l li lm lf by simp
  from e s n show ?thesis by blast
qed

lemma Hubert_mask_off:
  "\<not> (training h \<and> mask_flag h) \<Longrightarrow> Hubert_mask h u multinomial x = Inr (x, None)"
  by (auto simp: Hubert_mask_def)

lemma Hubert_mask_short:
  assumes "training h" and "mask_flag h" and "has_shape b t c x" and "0 < b" and "t < 10"
  shows "Hubert_mask h u multinomial x
       = Inl (ValueError ''mask_length has to be smaller than sequence_length'')"
  using assms has_shape_sizes [OF assms(3) assms(4)]
  by (simp add: Hubert_mask_def compute_mask_def bind_err_def)

lemma Hubert_mask_on:
  assumes "training h" and "mask_flag h"
    and x: "has_shape b t (length (masked_spec_embed h)) x" and b: "0 < b" and t: "10 \<le> t"
    and m: "multinomial_returns b (nat (int t - 10 + 1)) (num_masked_spans 0.8 (int t) 10 2 u)
              (multinomial b (nat (int t - 10 + 1)) (num_masked_spans 0.8 (int t) 10 2 u))"
  shows "\<exists>msk x'. compute_mask (b, int t) 0.8 10 2 u multinomial = Inr msk
           \<and> Hubert_mask h u multinomial x = Inr (x', Some msk)
           \<and> has_shape b t (length (masked_spec_embed h)) x'
           \<and> (\<forall>i < b. \<forall>j < t.
                 x' ! i ! j = (if msk ! i ! j then masked_spec_embed h else x ! i ! j))"
proof -
  let ?n = "num_masked_spans 0.8 (int t) 10 2 u"
  let ?draws = "multinomial b (nat (int t - 10 + 1)) ?n"
  let ?msk = "map (span_mask_row (nat (int t)) (nat 10)) ?draws"
  have c: "compute_mask (b, int t) 0.8 10 2 u multinomial = Inr ?msk"
    using compute_mask_spec_form [of 10 "int t" ?n "0.8" 2 u b multinomial] t m by simp
  have l: "length ?msk = b" using m by (simp add: multinomial_returns_def)
  have r: "\<forall>row \<in> set ?msk. length row = t" by (auto simp: span_mask_row_length)
  from masked_assign_ok [OF x l r] obtain x' where
    a: "masked_assign x ?msk (masked_spec_embed h) = Inr x'"
    and s: "has_shape b t (length (masked_spec_embed h)) x'"
    and n: "\<forall>i < b. \<forall>j < t. x' ! i ! j = (if ?msk ! i ! j then masked_spec_embed h else x ! i ! j)"
    by blast
  have "Hubert_mask h u multinomial x = Inr (x', Some ?msk)"
    using assms(1) assms(2) has_shape_sizes [OF x b] c a
    by (simp add: Hubert_mask_def bind_err_def)
  with c s n show ?thesis by blast
qed

lemma Hubert_encode_unfold:
  assumes "FeatureExtractor_forward (gelu_fn h) (feature_extractor h) x = Inr y"
  shows "Hubert_encode h u multinomial x layer =
     bind_err (Hubert_mask h u multinomial (feature_projection h (transpose12 y))) (\<lambda>(x, msk).
       Inr (TransformerEncoder_forward (encoder h)
              (dropout h (norm_layer h (tensor3_add x (positional_embedding h x))))
              None None layer, msk))"
  using assms by (simp add: Hubert_encode_def bind_err_def Let_def)

lemma transpose12_shape:
  assumes "has_shape b c t y" and "0 < c"
  shows "has_shape b t c (transpose12 y)"
proof -
  have "length (transpose item) = t \<and> (\<forall>fr \<in> set (transpose item). length fr = c)"
    if "item \<in> set y" for item
  proof -
    have lc: "length item = c" and lt: "\<And>i. i < length item \<Longrightarrow> length (item ! i) = t"
      using assms(1) that by (auto simp: has_shape_def)
    have ne: "item = [] \<Longrightarrow> t = 0" using lc assms(2) by auto
    have "transpose item = map (\<lambda>i. map (\<lambda>j. item ! j ! i) [0..<length item]) [0..<t]"
      by (rule transpose_rectangle [OF ne lt])
    then show ?thesis using lc by auto
  qed
  then show ?thesis using assms(1) by (auto simp: has_shape_def transpose12_def)
qed

lemma constant_projection_shape:
  assumes "has_shape b t c z"
  shows "has_shape b t k (map (map (\<lambda>v. replicate k (0::real))) z)"
  using assms by (auto simp: has_shape_def)

lemma has_shape_singleton:
  assumes "has_shape 1 t c z"
  shows "map (map (\<lambda>v. replicate k (0::real))) z = [replicate t (replicate k 0)]"
proof -
  from assms obtain item where z: "z = [item]" and l: "length item = t"
    by (cases z) (auto simp: has_shape_def)
  have "map (\<lambda>v. replicate k (0::real)) item = replicate (length item) (replicate k 0)"
    by (induction item) simp_all
  then show ?thesis using z l by simp
qed

text \<open>
  C7, amended. Let \<open>feats\<close> be the projected features of the input, a batch of \<open>b > 0\<close>
  items of \<open>t\<close> frames. When the module is not in training mode or its mask flag is
  off, \<open>Hubert.mask\<close> returns the features unchanged and \<open>encode\<close> returns None as its
  second component. In training mode with the flag on and at least 10 frames, given the
  sampler's draw, the frames at the True positions of the mask are replaced by the
  mask embedding, the other frames are kept, and \<open>encode\<close> returns the mask as its
  second component. In training mode with the flag on and fewer than 10 frames,
  \<open>encode\<close> raises ValueError.
\<close>

theorem hubert_encode_masking:
  assumes fe: "FeatureExtractor_forward (gelu_fn h) (feature_extractor h) x = Inr y"
    and feats: "feats = feature_projection h (transpose12 y)"
    and shape: "has_shape b t (length (masked_spec_embed h)) feats" and b: "0 < b"
  shows "(\<not> (training h \<and> mask_flag h) \<longrightarrow>
            Hubert_mask h u multinomial feats = Inr (feats, None)
          \<and> Hubert_encode h u multinomial x layer
              = Inr (TransformerEncoder_forward (encoder h)
                       (dropout h (norm_layer h
                          (tensor3_add feats (positional_embedding h feats))))
                       None None layer, None))
       \<and> (training h \<and> mask_flag h \<and> 10 \<le> t
            \<and> multinomial_returns b (nat (int t - 10 + 1)) (num_masked_spans 0.8 (int t) 10 2 u)
                 (multinomial b (nat (int t - 10 + 1)) (num_masked_spans 0.8 (int t) 10 2 u))
          \<longrightarrow> (\<exists>msk x'.
                 compute_mask (b, int t) 0.8 10 2 u multinomial = Inr msk
               \<and> Hubert_mask h u multinomial feats = Inr (x', Some msk)
               \<and> has_shape b t (length (masked_spec_embed h)) x'
               \<and> (\<forall>i < b. \<forall>j < t.
                     x' ! i ! j = (if msk ! i ! j then masked_spec_embed h else feats ! i ! j))
               \<and> Hubert_encode h u multinomial x layer
                   = Inr (TransformerEncoder_forward (encoder h)
                            (dropout h (norm_layer h
                               (tensor3_add x' (positional_embedding h x'))))
                            None None layer, Some msk)))
       \<and> (training h \<and> mask_flag h \<and> t < 10
          \<longrightarrow> Hubert_encode h u multinomial x layer
                = Inl (ValueError ''mask_length has to be smaller than sequence_length''))"
proof (intro conjI impI)
  note unf = Hubert_encode_unfold [OF fe, of u multinomial layer, folded feats]
  {
    assume off: "\<not> (training h \<and> mask_flag h)"
    show m: "Hubert_mask h u multinomial feats = Inr (feats, None)"
      by (rule Hubert_mask_off [OF off])
    show "Hubert_encode h u multinomial x layer
              = Inr (TransformerEncoder_forward (encoder h)
                       (dropout h (norm_layer h
                          (tensor3_add feats (positional_embedding h feats))))
                       None None layer, None)"
      unfolding unf m by (simp add: bind_err_def)
  }
  {
    assume on: "training h \<and> mask_flag h \<and> 10 \<le> t
            \<and> multinomial_returns b (nat (int t - 10 + 1)) (num_masked_spans 0.8 (int t) 10 2 u)
                 (multinomial b (nat (int t - 10 + 1)) (num_masked_spans 0.8 (int t) 10 2 u))"
    then have tr: "training h" and fl: "mask_flag h" and t: "10 \<le> t"
      and m: "multinomial_returns b (nat (int t - 10 + 1)) (num_masked_spans 0.8 (int t) 10 2 u)
                 (multinomial b (nat (int t - 10 + 1)) (num_masked_spans 0.8 (int t) 10 2 u))"
      by blast+
    from Hubert_mask_on [where multinomial = multinomial and u = u, OF tr fl shape b t m]
    obtain msk x' where
      c: "compute_mask (b, int t) 0.8 10 2 u multinomial = Inr msk"
      and hm: "Hubert_mask h u multinomial feats = Inr (x', Some msk)"
      and s: "has_shape b t (length (masked_spec_embed h)) x'"
      and n: "\<forall>i < b. \<forall>j < t.
                x' ! i ! j = (if msk ! i ! j then masked_spec_embed h else feats ! i ! j)"
      by blast
    have e: "Hubert_encode h u multinomial x layer
                   = Inr (TransformerEncoder_forward (encoder h)
                            (dropout h (norm_layer h
                               (tensor3_add x' (positional_embedding h x'))))
                            None None layer, Some msk)"
      unfolding unf hm by (simp add: bind_err_def)
    from c hm s n e show "\<exists>msk x'.
                 compute_mask (b, int t) 0.8 10 2 u multinomial = Inr msk
               \<and> Hubert_mask h u multinomial feats = Inr (x', Some msk)
               \<and> has_shape b t (length (masked_spec_embed h)) x'
               \<and> (\<forall>i < b. \<forall>j < t.
                     x' ! i ! j = (if msk ! i ! j then masked_spec_embed h else feats ! i ! j))
               \<and> Hubert_encode h u multinomial x layer
                   = Inr (TransformerEncoder_forward (encoder h)
                            (dropout h (norm_layer h
                               (tensor3_add x' (positional_embedding h x'))))
                            None None layer, Some msk)"
      by blast
  }
  {
    assume sh: "training h \<and> mask_flag h \<and> t < 10"
    then have tr: "training h" and fl: "mask_flag h" and t: "t < 10" by blast+
    show "Hubert_encode h u multinomial x layer
                = Inl (ValueError ''mask_length has to be smaller than sequence_length'')"
      unfolding unf Hubert_mask_short [OF tr fl shape b t] by (simp add: bind_err_def)
  }
qed

lemma extractor_frames:
  assumes "has_shape b 1 N x" and "400 \<le> N"
  shows "\<exists>y. FeatureExtractor_forward act (FeatureExtractor_init w g) x = Inr y
           \<and> has_shape b (nat (spec_output_length (int N))) 512 (transpose12 y)"
proof -
  define T where "T = (((((((N - 10) div 5 + 1 - 3) div 2 + 1 - 3) div 2 + 1 - 3) div 2 + 1 - 3) div 2 + 1 - 2) div 2 + 1 - 2) div 2 + 1"
  have e: "spec_output_length (int N) = int T"
    unfolding T_def by (rule spec_output_length_nat [OF assms(2)])
  have "\<exists>y. FeatureExtractor_forward act (FeatureExtractor_init w g) x = Inr y
       \<and> has_shape b 512 T y"
    unfolding T_def by (rule forward_ok [OF assms])
  then obtain y where y: "FeatureExtractor_forward act (FeatureExtractor_init w g) x = Inr y"
    and s: "has_shape b 512 T y"
    by blast
  have "has_shape b T 512 (transpose12 y)"
    by (rule transpose12_shape [OF s]) simp
  then show ?thesis using y unfolding e by auto
qed

theorem hubert_encode_masking_witness:
  "(\<exists>z. Hubert_encode
          ((Hubert_init True (\<lambda>i out c j. 0)
              \<lparr>gn_weight = \<lambda>c. 1, gn_bias = \<lambda>c. 0, gn_eps = 1 / 100000\<rparr> (\<lambda>v. v)
              (map (map (\<lambda>v. replicate 768 0))) (\<lambda>x. x) (\<lambda>x. x) (\<lambda>x. x) (\<lambda>i x m k. x)
              (\<lambda>out i. 0) (\<lambda>out. 0) (\<lambda>i. 1))\<lparr>training := False\<rparr>)
          0.5 (\<lambda>b c n. replicate b [0]) [[replicate 3280 0]] None = Inr (z, None))
   \<and> multinomial_returns 1 (nat (int 10 - 10 + 1)) (num_masked_spans 0.8 (int 10) 10 2 0.5)
        ((\<lambda>b c n. replicate b [0]) 1 (nat (int 10 - 10 + 1))
           (num_masked_spans 0.8 (int 10) 10 2 0.5))
   \<and> (\<exists>z. Hubert_encode
          (Hubert_init True (\<lambda>i out c j. 0)
              \<lparr>gn_weight = \<lambda>c. 1, gn_bias = \<lambda>c. 0, gn_eps = 1 / 100000\<rparr> (\<lambda>v. v)
              (map (map (\<lambda>v. replicate 768 0))) (\<lambda>x. x) (\<lambda>x. x) (\<lambda>x. x) (\<lambda>i x m k. x)
              (\<lambda>out i. 0) (\<lambda>out. 0) (\<lambda>i. 1))
          0.5 (\<lambda>b c n. replicate b [0]) [[replicate 3280 0]] None
        = Inr (z, Some [replicate 10 True]))
   \<and> Hubert_encode
          (Hubert_init True (\<lambda>i out c j. 0)
              \<lparr>gn_weight = \<lambda>c. 1, gn_bias = \<lambda>c. 0, gn_eps = 1 / 100000\<rparr> (\<lambda>v. v)
              (map (map (\<lambda>v. replicate 768 0))) (\<lambda>x. x) (\<lambda>x. x) (\<lambda>x. x) (\<lambda>i x m k. x)
              (\<lambda>out i. 0) (\<lambda>out. 0) (\<lambda>i. 1))
          0.5 (\<lambda>b c n. replicate b [0]) [[replicate 400 0]] None
        = Inl (ValueError ''mask_length has to be smaller than sequence_length'')"
proof -
  let ?g = "\<lparr>gn_weight = \<lambda>c. 1, gn_bias = \<lambda>c. 0, gn_eps = 1 / 100000\<rparr>"
  let ?w = "\<lambda>(i::nat) (out::nat) (c::nat) (j::nat). 0::real"
  let ?fp = "map (map (\<lambda>v::real list. replicate 768 (0::real)))"
  let ?h = "Hubert_init True ?w ?g (\<lambda>v. v) ?fp (\<lambda>x. x) (\<lambda>x. x) (\<lambda>x. x) (\<lambda>i x m k. x)
              (\<lambda>out i. 0) (\<lambda>out. 0) (\<lambda>i. 1)"
  let ?he = "?h\<lparr>training := False\<rparr>"
  let ?m = "\<lambda>(b::nat) (c::nat) (n::int). replicate b [0::nat]"
  have f: "training ?h" "mask_flag ?h" "\<not> (training ?he \<and> mask_flag ?he)"
    "feature_extractor ?h = FeatureExtractor_init ?w ?g" "gelu_fn ?h = (\<lambda>v. v)"
    "feature_extractor ?he = FeatureExtractor_init ?w ?g" "gelu_fn ?he = (\<lambda>v. v)"
    "feature_projection ?h = ?fp" "feature_projection ?he = ?fp"
    "length (masked_spec_embed ?h) = 768" "length (masked_spec_embed ?he) = 768"
    by (simp_all add: Hubert_init_def)
  have b: "(0::nat) < 1" by simp
  have n: "num_masked_spans 0.8 (int 10) 10 2 0.5 = 1"
    unfolding num_masked_spans_def Let_def py_int_def by simp
  have r: "multinomial_returns 1 (nat (int 10 - 10 + 1)) (num_masked_spans 0.8 (int 10) 10 2 0.5)
        (?m 1 (nat (int 10 - 10 + 1)) (num_masked_spans 0.8 (int 10) 10 2 0.5))"
    unfolding n by (simp add: multinomial_returns_def)
  have c: "compute_mask (1, int 10) 0.8 10 2 0.5 ?m = Inr [replicate 10 True]"
  proof -
    have n': "num_masked_spans (4 / 5) 10 10 2 (1 / 2) = 1" using n by simp
    show ?thesis
      by (simp add: compute_mask_def n' Let_def torch_multinomial_def expand_indices_def
            expand_offsets_def tensor_add_def bind_err_def numeral_eq_Suc upt_rec)
  qed
  have l10: "nat (spec_output_length (int 3280)) = 10"
    by (simp add: spec_output_length_def conv_output_length_def)
  have l1: "nat (spec_output_length (int 400)) = 1"
    by (simp add: spec_output_length_def conv_output_length_def)
  have s10: "has_shape 1 1 3280 [[replicate 3280 (0::real)]]"
    by (simp add: has_shape_def)
  have s1: "has_shape 1 1 400 [[replicate 400 (0::real)]]"
    by (simp add: has_shape_def)
  from extractor_frames [OF s10, of "\<lambda>v. v" ?w ?g] obtain y10 where
    y10: "FeatureExtractor_forward (\<lambda>v. v) (FeatureExtractor_init ?w ?g) [[replicate 3280 0]]
            = Inr y10"
    and t10: "has_shape 1 10 512 (transpose12 y10)"
    unfolding l10 by auto
  from extractor_frames [OF s1, of "\<lambda>v. v" ?w ?g] obtain y1 where
    y1: "FeatureExtractor_forward (\<lambda>v. v) (FeatureExtractor_init ?w ?g) [[replicate 400 0]]
            = Inr y1"
    and t1: "has_shape 1 1 512 (transpose12 y1)"
    unfolding l1 by auto
  have p10: "has_shape 1 10 768 (?fp (transpose12 y10))"
    by (rule constant_projection_shape [OF t10])
  have p1: "has_shape 1 1 768 (?fp (transpose12 y1))"
    by (rule constant_projection_shape [OF t1])
  note th_e = hubert_encode_masking [where h = ?he and x = "[[replicate 3280 0]]" and y = y10
      and feats = "?fp (transpose12 y10)" and b = 1 and t = 10 and u = "0.5"
      and multinomial = ?m and layer = None]
  note th_t = hubert_encode_masking [where h = ?h and x = "[[replicate 3280 0]]" and y = y10
      and feats = "?fp (transpose12 y10)" and b = 1 and t = 10 and u = "0.5"
      and multinomial = ?m and layer = None]
  note th_s = hubert_encode_masking [where h = ?h and x = "[[replicate 400 0]]" and y = y1
      and feats = "?fp (transpose12 y1)" and b = 1 and t = 1 and u = "0.5"
      and multinomial = ?m and layer = None]
  have a1: "\<exists>z. Hubert_encode ?he 0.5 ?m [[replicate 3280 0]] None = Inr (z, None)"
    using th_e f y10 p10 by simp
  have a2: "\<exists>z. Hubert_encode ?h 0.5 ?m [[replicate 3280 0]] None
        = Inr (z, Some [replicate 10 True])"
  proof -
    from th_t f y10 p10 r obtain msk x' where
      "compute_mask (1, int 10) 0.8 10 2 0.5 ?m = Inr msk"
      and "Hubert_encode ?h 0.5 ?m [[replicate 3280 0]] None
             = Inr (TransformerEncoder_forward (encoder ?h)
                            (dropout ?h (norm_layer ?h
                               (tensor3_add x' (positional_embedding ?h x'))))
                            None None None, Some msk)"
      by auto
    then show ?thesis using c by simp
  qed
  have a3: "Hubert_encode ?h 0.5 ?m [[replicate 400 0]] None
        = Inl (ValueError ''mask_length has to be smaller than sequence_length'')"
    using th_s f y1 p1 by simp
  from a1 r a2 a3 show ?thesis by blast
qed

text \<open>
  The claim as stated fails on a short input in training mode. A waveform of 400
  samples gives one frame; with the module in training mode and the mask flag set,
  \<open>Hubert.mask\<close> calls the masker with \<open>mask_length = 10\<close> on a sequence of length 1,
  and \<open>encode\<close> raises ValueError: no features and no mask are returned.
\<close>

theorem hubert_encode_short_counterexample:
  "training (Hubert_init True (\<lambda>i out c j. 0)
              \<lparr>gn_weight = \<lambda>c. 1, gn_bias = \<lambda>c. 0, gn_eps = 1 / 100000\<rparr> (\<lambda>v. v)
              (map (map (\<lambda>v. replicate 768 0))) (\<lambda>x. x) (\<lambda>x. x) (\<lambda>x. x) (\<lambda>i x m k. x)
              (\<lambda>out i. 0) (\<lambda>out. 0) (\<lambda>i. 1))
   \<and> mask_flag (Hubert_init True (\<lambda>i out c j. 0)
              \<lparr>gn_weight = \<lambda>c. 1, gn_bias = \<lambda>c. 0, gn_eps = 1 / 100000\<rparr> (\<lambda>v. v)
              (map (map (\<lambda>v. replicate 768 0))) (\<lambda>x. x) (\<lambda>x. x) (\<lambda>x. x) (\<lambda>i x m k. x)
              (\<lambda>out i. 0) (\<lambda>out. 0) (\<lambda>i. 1))
   \<and> Hubert_encode
          (Hubert_init True (\<lambda>i out c j. 0)
              \<lparr>gn_weight = \<lambda>c. 1, gn_bias = \<lambda>c. 0, gn_eps = 1 / 100000\<rparr> (\<lambda>v. v)
              (map (map (\<lambda>v. replicate 768 0))) (\<lambda>x. x) (\<lambda>x. x) (\<lambda>x. x) (\<lambda>i x m k. x)
              (\<lambda>out i. 0) (\<lambda>out. 0) (\<lambda>i. 1))
          0.5 (\<lambda>b c n. replicate b [0]) [[replicate 400 0]] None
        = Inl (ValueError ''mask_length has to be smaller than sequence_length'')"
proof -
  let ?g = "\<lparr>gn_weight = \<lambda>c. 1, gn_bias = \<lambda>c. 0, gn_eps = 1 / 100000\<rparr>"
  let ?w = "\<lambda>(i::nat) (out::nat) (c::nat) (j::nat). 0::real"
  let ?fp = "map (map (\<lambda>v::real list. replicate 768 (0::real)))"
  let ?h = "Hubert_init True ?w ?g (\<lambda>v. v) ?fp (\<lambda>x. x) (\<lambda>x. x) (\<lambda>x. x) (\<lambda>i x m k. x)
              (\<lambda>out i. 0) (\<lambda>out. 0) (\<lambda>i. 1)"
  let ?m = "\<lambda>(b::nat) (c::nat) (n::int). replicate b [0::nat]"
  have tr: "training ?h" and fl: "mask_flag ?h"
    and fe: "feature_extractor ?h = FeatureExtractor_init ?w ?g" and ge: "gelu_fn ?h = (\<lambda>v. v)"
    and fp: "feature_projection ?h = ?fp"
    by (simp_all add: Hubert_init_def)
  have l1: "nat (spec_output_length (int 400)) = 1"
    by (simp add: spec_output_length_def conv_output_length_def)
  have s1: "has_shape 1 1 400 [[replicate 400 (0::real)]]"
    by (simp add: has_shape_def)
  from extractor_frames [OF s1, of "\<lambda>v. v" ?w ?g] obtain y1 where
    y1: "FeatureExtractor_forward (\<lambda>v. v) (FeatureExtractor_init ?w ?g) [[replicate 400 0]]
            = Inr y1"
    and t1: "has_shape 1 1 512 (transpose12 y1)"
    unfolding l1 by auto
  have p1: "has_shape 1 1 768 (?fp (transpose12 y1))"
    by (rule constant_projection_shape [OF t1])
  have y1': "FeatureExtractor_forward (gelu_fn ?h) (feature_extractor ?h) [[replicate 400 0]]
            = Inr y1"
    unfolding fe ge by (rule y1)
  have b: "(0::nat) < 1" and t: "(1::nat) < 10" by simp_all
  have "Hubert_mask ?h 0.5 ?m (?fp (transpose12 y1))
      = Inl (ValueError ''mask_length has to be smaller than sequence_length'')"
    by (rule Hubert_mask_short [OF tr fl p1 b t])
  then have "Hubert_encode ?h 0.5 ?m [[replicate 400 0]] None
      = Inl (ValueError ''mask_length has to be smaller than sequence_length'')"
    unfolding Hubert_encode_unfold [OF y1'] fp by (simp add: bind_err_def)
  with tr fl show ?thesis by blast
qed

section \<open>The unit extractors\<close>

lemma map_err_map:
  assumes "\<forall>x \<in> set xs. f x = Inr (g x)"
  shows "map_err f xs = Inr (map g xs)"
  using assms by (induction xs) (simp_all add: bind_err_def)

lemma linear_frames:
  assumes "has_shape b t (in_features l) z"
  shows "linear l z
       = Inr (map (map (\<lambda>v. map (\<lambda>out. dot (lin_weight l out) v + lin_bias l out)
                                [0..<out_features l])) z)"
proof -
  let ?g = "\<lambda>v. map (\<lambda>out. dot (lin_weight l out) v + lin_bias l out) [0..<out_features l]"
  have "\<forall>item \<in> set z. map_err (linear_frame l) item = Inr (map ?g item)"
  proof
    fix item assume "item \<in> set z"
    then have "\<forall>v \<in> set item. linear_frame l v = Inr (?g v)"
      using assms by (auto simp: has_shape_def linear_frame_def)
    then show "map_err (linear_frame l) item = Inr (map ?g item)"
      by (rule map_err_map)
  qed
  then show ?thesis unfolding linear_def by (rule map_err_map)
qed

lemma linear_shape:
  assumes "has_shape b t c z"
  shows "has_shape b t (out_features l)
           (map (map (\<lambda>v. map (\<lambda>out. dot (lin_weight l out) v + lin_bias l out)
                                [0..<out_features l])) z)"
  using assms by (auto simp: has_shape_def)

lemma argmin_from_spec:
  "snd (argmin_from best i es) \<le> snd best
   \<and> (\<forall>e \<in> set es. snd (argmin_from best i es) \<le> e)
   \<and> (argmin_from best i es = best
        \<or> (\<exists>j < length es. argmin_from best i es = (i + j, es ! j)))"
proof (induction es arbitrary: best i)
  case Nil
  then show ?case by simp
next
  case (Cons e es)
  show ?case
  proof (cases "e < snd best")
    case True
    from Cons.IH [of "(i, e)" "Suc i"] True show ?thesis
      by (auto intro: exI [of _ 0] simp: less_Suc_eq_0_disj)
  next
    case False
    from Cons.IH [of best "Suc i"] False show ?thesis
      by (auto simp: less_Suc_eq_0_disj)
  qed
qed

lemma argmin_spec:
  assumes "ds \<noteq> []"
  shows "argmin ds < length ds \<and> (\<forall>k < length ds. ds ! argmin ds \<le> ds ! k)"
proof -
  from assms obtain d rest where ds: "ds = d # rest" by (cases ds) auto
  let ?r = "argmin_from (0, d) 1 rest"
  have a: "argmin ds = fst ?r" by (simp add: argmin_def ds)
  from argmin_from_spec [of "(0, d)" 1 rest]
  have le: "snd ?r \<le> d" and all: "\<forall>e \<in> set rest. snd ?r \<le> e"
    and w: "?r = (0, d) \<or> (\<exists>j < length rest. ?r = (1 + j, rest ! j))"
    by simp_all
  have v: "fst ?r < length ds \<and> ds ! fst ?r = snd ?r"
    using w by (auto simp: ds)
  have "ds ! fst ?r \<le> ds ! k" if "k < length ds" for k
  proof (cases k)
    case 0
    then show ?thesis using v le by (simp add: ds)
  next
    case (Suc k')
    then have "rest ! k' \<in> set rest" using that by (simp add: ds)
    then show ?thesis using v all Suc by (simp add: ds)
  qed
  with v a show ?thesis by simp
qed

lemma squeeze_frames:
  assumes "has_shape 1 t c z" and "2 \<le> t" and "c \<noteq> 1"
  shows "squeeze z = Array2 (hd z)"
proof -
  from assms(1) obtain item where z: "z = [item]" and l: "length item = t"
    and f: "\<forall>fr \<in> set item. length fr = c"
    by (cases z) (auto simp: has_shape_def)
  from l assms(2) obtain fr rest where item: "item = fr # rest" by (cases item) auto
  have "length fr = c" using f item by simp
  then show ?thesis using assms(2) assms(3) l
    by (simp add: squeeze_def size0_def size1_def size2_def z item)
qed

lemma squeeze_single_frame:
  assumes "has_shape 1 1 c z" and "c \<noteq> 1"
  shows "squeeze z = Array1 (hd (hd z))"
proof -
  from assms(1) obtain item where z: "z = [item]" and l: "length item = 1"
    and f: "\<forall>fr \<in> set item. length fr = c"
    by (cases z) (auto simp: has_shape_def)
  from l obtain fr where item: "item = [fr]" by (cases item) auto
  have "length fr = c" using f item by simp
  then show ?thesis using assms(2)
    by (simp add: squeeze_def size0_def size1_def size2_def z item)
qed

lemma HubertSoft_units_unfold:
  assumes "Hubert_encode h u multinomial (F_pad wav (40, 40)) None = Inr (z, msk)"
  shows "HubertSoft_units h u multinomial wav = linear (proj_linear h) z"
  using assms by (simp add: HubertSoft_units_def bind_err_def)

lemma HubertDiscrete_units_unfold:
  assumes "Hubert_encode h u multinomial (F_pad wav (40, 40)) (Some 7) = Inr (z, msk)"
  shows "HubertDiscrete_units h u multinomial wav = KMeans_predict (kmeans h) (squeeze z)"
  using assms by (simp add: HubertDiscrete_units_def bind_err_def)

lemma squeeze_batch:
  assumes "has_shape b t c z" and "2 \<le> b" and "2 \<le> t" and "c \<noteq> 1"
  shows "squeeze z = Array3 z"
proof -
  from assms(1) assms(2) obtain item rest where z: "z = item # rest"
    and l: "length item = t" and f: "\<forall>fr \<in> set item. length fr = c" and lb: "length z = b"
    by (cases z) (auto simp: has_shape_def)
  from l assms(3) obtain fr rest' where item: "item = fr # rest'" by (cases item) auto
  have "length fr = c" using f item by simp
  then show ?thesis using assms(2) assms(3) assms(4) l lb
    by (simp add: squeeze_def size0_def size1_def size2_def z item)
qed

lemma KMeans_predict_rows:
  assumes "rows \<noteq> []" and "\<forall>row \<in> set rows. length row = size1 (cluster_centers km)"
  shows "KMeans_predict km (Array2 rows)
       = Inr (map (\<lambda>row. int (argmin (map (sq_dist row) (cluster_centers km)))) rows)"
  using assms by (simp add: KMeans_predict_def list_all_iff)

text \<open>
  C8. Both unit extractors pad every channel of the waveform with
  \<open>(400 - 320) div 2 = 40\<close> zeros on each side. \<open>HubertSoft.units\<close> runs \<open>encode\<close>
  over all layers and applies the projection to every frame. \<open>HubertDiscrete.units\<close>
  runs \<open>encode\<close> with \<open>layer = 7\<close>; for one waveform and at least two frames it
  returns one cluster id per frame, the index of a centroid closest to the frame. For
  one waveform and a single frame, \<open>squeeze()\<close> removes the frame axis as well and the
  cluster model raises ValueError; for a batch of two or more waveforms it raises
  ValueError too.
\<close>

theorem unit_extractors:
  "F_pad wav ((400 - 320) div 2, (400 - 320) div 2)
      = map (map (\<lambda>ch. replicate 40 0 @ ch @ replicate 40 0)) wav
   \<and> (Hubert_encode hs u multinomial (F_pad wav (40, 40)) None = Inr (z, msk)
        \<and> has_shape b t (in_features (proj_linear hs)) z
      \<longrightarrow> (\<exists>units. HubertSoft_units hs u multinomial wav = Inr units
             \<and> has_shape b t (out_features (proj_linear hs)) units
             \<and> (\<forall>i < b. \<forall>j < t.
                   linear_frame (proj_linear hs) (z ! i ! j) = Inr (units ! i ! j))))
   \<and> (Hubert_encode hdis u multinomial (F_pad wav (40, 40)) (Some 7) = Inr (z7, msk7)
        \<and> has_shape 1 t (size1 (cluster_centers (kmeans hdis))) z7 \<and> 2 \<le> t
        \<and> size1 (cluster_centers (kmeans hdis)) \<noteq> 1 \<and> cluster_centers (kmeans hdis) \<noteq> []
      \<longrightarrow> (\<exists>ids. HubertDiscrete_units hdis u multinomial wav = Inr ids \<and> length ids = t
             \<and> (\<forall>j < t. 0 \<le> ids ! j
                   \<and> nat (ids ! j) < length (cluster_centers (kmeans hdis))
                   \<and> (\<forall>k < length (cluster_centers (kmeans hdis)).
                         sq_dist (z7 ! 0 ! j) (cluster_centers (kmeans hdis) ! nat (ids ! j))
                           \<le> sq_dist (z7 ! 0 ! j) (cluster_centers (kmeans hdis) ! k)))))
   \<and> (Hubert_encode hdis u multinomial (F_pad wav (40, 40)) (Some 7) = Inr (z7, msk7)
        \<and> has_shape 1 1 c z7 \<and> c \<noteq> 1
      \<longrightarrow> HubertDiscrete_units hdis u multinomial wav
            = Inl (ValueError ''Expected 2D array, got 1D array instead''))
   \<and> (Hubert_encode hdis u multinomial (F_pad wav (40, 40)) (Some 7) = Inr (z7, msk7)
        \<and> has_shape b t c z7 \<and> 2 \<le> b \<and> 2 \<le> t \<and> c \<noteq> 1
      \<longrightarrow> HubertDiscrete_units hdis u multinomial wav
            = Inl (ValueError ''Found array with dim 3. KMeans expected <= 2.''))"
proof (intro conjI impI)
  show "F_pad wav ((400 - 320) div 2, (400 - 320) div 2)
      = map (map (\<lambda>ch. replicate 40 0 @ ch @ replicate 40 0)) wav"
    by (simp add: F_pad_def)
next
  assume h: "Hubert_encode hs u multinomial (F_pad wav (40, 40)) None = Inr (z, msk)
        \<and> has_shape b t (in_features (proj_linear hs)) z"
  then have e: "Hubert_encode hs u multinomial (F_pad wav (40, 40)) None = Inr (z, msk)"
    and s: "has_shape b t (in_features (proj_linear hs)) z" by blast+
  let ?l = "proj_linear hs"
  let ?g = "\<lambda>v. map (\<lambda>out. dot (lin_weight ?l out) v + lin_bias ?l out) [0..<out_features ?l]"
  have r: "HubertSoft_units hs u multinomial wav = Inr (map (map ?g) z)"
    unfolding HubertSoft_units_unfold [OF e] by (rule linear_frames [OF s])
  have sh: "has_shape b t (out_features ?l) (map (map ?g) z)"
    by (rule linear_shape [OF s])
  have "linear_frame ?l (z ! i ! j) = Inr (map (map ?g) z ! i ! j)" if "i < b" "j < t" for i j
  proof -
    have "length z = b" "length (z ! i) = t" "length (z ! i ! j) = in_features ?l"
      using s that by (simp_all add: has_shape_nth)
    then show ?thesis using that by (simp add: linear_frame_def)
  qed
  with r sh show "\<exists>units. HubertSoft_units hs u multinomial wav = Inr units
             \<and> has_shape b t (out_features (proj_linear hs)) units
             \<and> (\<forall>i < b. \<forall>j < t.
                   linear_frame (proj_linear hs) (z ! i ! j) = Inr (units ! i ! j))"
    by blast
next
  let ?cs = "cluster_centers (kmeans hdis)"
  assume h: "Hubert_encode hdis u multinomial (F_pad wav (40, 40)) (Some 7) = Inr (z7, msk7)
        \<and> has_shape 1 t (size1 ?cs) z7 \<and> 2 \<le> t \<and> size1 ?cs \<noteq> 1 \<and> ?cs \<noteq> []"
  then have e: "Hubert_encode hdis u multinomial (F_pad wav (40, 40)) (Some 7) = Inr (z7, msk7)"
    and s: "has_shape 1 t (size1 ?cs) z7" and t: "2 \<le> t" and c: "size1 ?cs \<noteq> 1"
    and ne: "?cs \<noteq> []" by blast+
  from s obtain rows where z7: "z7 = [rows]" and l: "length rows = t"
    and w: "\<forall>row \<in> set rows. length row = size1 ?cs"
    by (cases z7) (auto simp: has_shape_def)
  have rne: "rows \<noteq> []" using l t by auto
  let ?ids = "map (\<lambda>row. int (argmin (map (sq_dist row) ?cs))) rows"
  have r: "HubertDiscrete_units hdis u multinomial wav = Inr ?ids"
    unfolding HubertDiscrete_units_unfold [OF e] squeeze_frames [OF s t c]
    using KMeans_predict_rows [OF rne w] by (simp add: z7)
  have p: "0 \<le> ?ids ! j \<and> nat (?ids ! j) < length ?cs
         \<and> (\<forall>k < length ?cs. sq_dist (z7 ! 0 ! j) (?cs ! nat (?ids ! j))
                                \<le> sq_dist (z7 ! 0 ! j) (?cs ! k))" if "j < t" for j
  proof -
    let ?ds = "map (sq_dist (rows ! j)) ?cs"
    have "?ds \<noteq> []" using ne by simp
    then have am: "argmin ?ds < length ?ds \<and> (\<forall>k < length ?ds. ?ds ! argmin ?ds \<le> ?ds ! k)"
      by (rule argmin_spec)
    then have a: "argmin ?ds < length ?cs" by simp
    have "\<forall>k < length ?cs. sq_dist (rows ! j) (?cs ! argmin ?ds) \<le> sq_dist (rows ! j) (?cs ! k)"
    proof (intro allI impI)
      fix k assume k: "k < length ?cs"
      then have k': "k < length ?ds" by simp
      with am have "?ds ! argmin ?ds \<le> ?ds ! k" by blast
      then show "sq_dist (rows ! j) (?cs ! argmin ?ds) \<le> sq_dist (rows ! j) (?cs ! k)"
        using a k by simp
    qed
    with a show ?thesis using that l by (simp add: z7)
  qed
  from r l p show "\<exists>ids. HubertDiscrete_units hdis u multinomial wav = Inr ids \<and> length ids = t
             \<and> (\<forall>j < t. 0 \<le> ids ! j
                   \<and> nat (ids ! j) < length (cluster_centers (kmeans hdis))
                   \<and> (\<forall>k < length (cluster_centers (kmeans hdis)).
                         sq_dist (z7 ! 0 ! j) (cluster_centers (kmeans hdis) ! nat (ids ! j))
                           \<le> sq_dist (z7 ! 0 ! j) (cluster_centers (kmeans hdis) ! k)))"
    by (intro exI [of _ ?ids]) simp
next
  assume h: "Hubert_encode hdis u multinomial (F_pad wav (40, 40)) (Some 7) = Inr (z7, msk7)
        \<and> has_shape 1 1 c z7 \<and> c \<noteq> 1"
  then have e: "Hubert_encode hdis u multinomial (F_pad wav (40, 40)) (Some 7) = Inr (z7, msk7)"
    and s: "has_shape 1 1 c z7" and c: "c \<noteq> 1" by blast+
  show "HubertDiscrete_units hdis u multinomial wav
            = Inl (ValueError ''Expected 2D array, got 1D array instead'')"
    unfolding HubertDiscrete_units_unfold [OF e] squeeze_single_frame [OF s c]
    by (simp add: KMeans_predict_def)
next
  assume h: "Hubert_encode hdis u multinomial (F_pad wav (40, 40)) (Some 7) = Inr (z7, msk7)
        \<and> has_shape b t c z7 \<and> 2 \<le> b \<and> 2 \<le> t \<and> c \<noteq> 1"
  then have e: "Hubert_encode hdis u multinomial (F_pad wav (40, 40)) (Some 7) = Inr (z7, msk7)"
    and s: "has_shape b t c z7" and b: "2 \<le> b" and t: "2 \<le> t" and c: "c \<noteq> 1" by blast+
  show "HubertDiscrete_units hdis u multinomial wav
            = Inl (ValueError ''Found array with dim 3. KMeans expected <= 2.'')"
    unfolding HubertDiscrete_units_unfold [OF e] squeeze_batch [OF s b t c]
    by (simp add: KMeans_predict_def)
qed

lemma constant_projection_value:
  assumes "has_shape b t c (z :: 'a list list list)"
  shows "map (map (\<lambda>v. r)) z = replicate b (replicate t r)"
proof -
  have "map (\<lambda>v. r) item = replicate (length item) r" for item :: "'a list list"
    by (induction item) simp_all
  then have "map (map (\<lambda>v. r)) z = map (\<lambda>item. replicate t r) z"
    using assms by (auto simp: has_shape_def)
  also have "\<dots> = replicate (length z) (replicate t r)"
    by (induction z) simp_all
  finally show ?thesis using assms by (simp add: has_shape_def)
qed

lemma identity_layers:
  assumes "\<forall>l \<in> set layers. l = (\<lambda>x m k. x)"
  shows "TransformerEncoder_forward layers z m k output_layer = z"
proof -
  have sub: "set (py_slice_to layers output_layer) \<subseteq> set layers"
    by (auto simp: py_slice_to_def split: option.splits dest: in_set_takeD)
  have "foldl (\<lambda>output layer. layer output m k) z ls = z"
    if "\<forall>l \<in> set ls. l = (\<lambda>x m k. x)" for ls
    using that by (induction ls) simp_all
  then show ?thesis
    unfolding TransformerEncoder_forward_def using sub assms by blast
qed

lemma zero_module_encode:
  assumes x: "has_shape b 1 N x" and N: "400 \<le> N"
    and tr: "\<not> training h"
    and fe: "feature_extractor h = FeatureExtractor_init w g"
    and fp: "feature_projection h = map (map (\<lambda>v. replicate 768 0))"
    and pe: "positional_embedding h = (\<lambda>x. x)"
    and ln: "norm_layer h = (\<lambda>x. x)"
    and dr: "dropout h = (\<lambda>x. x)"
    and ly: "\<forall>l \<in> set (encoder h). l = (\<lambda>x m k. x)"
  shows "Hubert_encode h u multinomial x layer
       = Inr (replicate b (replicate (nat (spec_output_length (int N))) (replicate 768 0)), None)"
proof -
  let ?T = "nat (spec_output_length (int N))"
  let ?z = "replicate b (replicate ?T (replicate 768 (0::real)))"
  from extractor_frames [OF x N, of "gelu_fn h" w g] obtain y where
    y: "FeatureExtractor_forward (gelu_fn h) (feature_extractor h) x = Inr y"
    and s: "has_shape b ?T 512 (transpose12 y)"
    unfolding fe by blast
  have f: "feature_projection h (transpose12 y) = ?z"
    unfolding fp by (rule constant_projection_value [OF s])
  have m: "Hubert_mask h u multinomial ?z = Inr (?z, None)"
    using tr by (simp add: Hubert_mask_def)
  have a: "tensor3_add ?z ?z = ?z"
    by (simp add: tensor3_add_def)
  show ?thesis
    unfolding Hubert_encode_unfold [OF y] f m
    by (simp add: bind_err_def pe ln dr a identity_layers [OF ly])
qed

theorem unit_extractors_witness:
  "(\<exists>units. HubertSoft_units
          ((Hubert_init True (\<lambda>i out c j. 0)
              \<lparr>gn_weight = \<lambda>c. 1, gn_bias = \<lambda>c. 0, gn_eps = 1 / 100000\<rparr> (\<lambda>v. v)
              (map (map (\<lambda>v. replicate 768 0))) (\<lambda>x. x) (\<lambda>x. x) (\<lambda>x. x) (\<lambda>i x m k. x)
              (\<lambda>out i. 0) (\<lambda>out. 0) (\<lambda>i. 1))\<lparr>training := False\<rparr>)
          0.5 (\<lambda>b c n. replicate b [0]) [[replicate 640 0]] = Inr units
        \<and> has_shape 1 2 256 units)
   \<and> (\<exists>ids. HubertDiscrete_units
          ((HubertDiscrete_init \<lparr>cluster_centers = [replicate 768 0, replicate 768 1]\<rparr>
              (\<lambda>i out c j. 0)
              \<lparr>gn_weight = \<lambda>c. 1, gn_bias = \<lambda>c. 0, gn_eps = 1 / 100000\<rparr> (\<lambda>v. v)
              (map (map (\<lambda>v. replicate 768 0))) (\<lambda>x. x) (\<lambda>x. x) (\<lambda>x. x) (\<lambda>i x m k. x)
              (\<lambda>out i. 0) (\<lambda>out. 0) (\<lambda>i. 1))\<lparr>training := False\<rparr>)
          0.5 (\<lambda>b c n. replicate b [0]) [[replicate 640 0]] = Inr ids
        \<and> length ids = 2)
   \<and> HubertDiscrete_units
          ((HubertDiscrete_init \<lparr>cluster_centers = [replicate 768 0, replicate 768 1]\<rparr>
              (\<lambda>i out c j. 0)
              \<lparr>gn_weight = \<lambda>c. 1, gn_bias = \<lambda>c. 0, gn_eps = 1 / 100000\<rparr> (\<lambda>v. v)
              (map (map (\<lambda>v. replicate 768 0))) (\<lambda>x. x) (\<lambda>x. x) (\<lambda>x. x) (\<lambda>i x m k. x)
              (\<lambda>out i. 0) (\<lambda>out. 0) (\<lambda>i. 1))\<lparr>training := False\<rparr>)
          0.5 (\<lambda>b c n. replicate b [0]) [[replicate 320 0]]
        = Inl (ValueError ''Expected 2D array, got 1D array instead'')
   \<and> HubertDiscrete_units
          ((HubertDiscrete_init \<lparr>cluster_centers = [replicate 768 0, replicate 768 1]\<rparr>
              (\<lambda>i out c j. 0)
              \<lparr>gn_weight = \<lambda>c. 1, gn_bias = \<lambda>c. 0, gn_eps = 1 / 100000\<rparr> (\<lambda>v. v)
              (map (map (\<lambda>v. replicate 768 0))) (\<lambda>x. x) (\<lambda>x. x) (\<lambda>x. x) (\<lambda>i x m k. x)
              (\<lambda>out i. 0) (\<lambda>out. 0) (\<lambda>i. 1))\<lparr>training := False\<rparr>)
          0.5 (\<lambda>b c n. replicate b [0]) [[replicate 640 0], [replicate 640 0]]
        = Inl (ValueError ''Found array with dim 3. KMeans expected <= 2.'')"
proof -
  let ?g = "\<lparr>gn_weight = \<lambda>c. 1, gn_bias = \<lambda>c. 0, gn_eps = 1 / 100000\<rparr>"
  let ?w = "\<lambda>(i::nat) (out::nat) (c::nat) (j::nat). 0::real"
  let ?fp = "map (map (\<lambda>v::real list. replicate 768 (0::real)))"
  let ?km = "\<lparr>cluster_centers = [replicate 768 0, replicate 768 1]\<rparr>"
  let ?hs = "(Hubert_init True ?w ?g (\<lambda>v. v) ?fp (\<lambda>x. x) (\<lambda>x. x) (\<lambda>x. x) (\<lambda>i x m k. x)
              (\<lambda>out i. 0) (\<lambda>out. 0) (\<lambda>i. 1))\<lparr>training := False\<rparr>"
  let ?hd = "(HubertDiscrete_init ?km ?w ?g (\<lambda>v. v) ?fp (\<lambda>x. x) (\<lambda>x. x) (\<lambda>x. x) (\<lambda>i x m k. x)
              (\<lambda>out i. 0) (\<lambda>out. 0) (\<lambda>i. 1))\<lparr>training := False\<rparr>"
  let ?m = "\<lambda>(b::nat) (c::nat) (n::int). replicate b [0::nat]"
  have fs: "\<not> training ?hs" "feature_extractor ?hs = FeatureExtractor_init ?w ?g"
    "feature_projection ?hs = ?fp" "positional_embedding ?hs = (\<lambda>x. x)"
    "norm_layer ?hs = (\<lambda>x. x)" "dropout ?hs = (\<lambda>x. x)"
    "\<forall>l \<in> set (encoder ?hs). l = (\<lambda>x m k. x)"
    "in_features (proj_linear ?hs) = 768" "out_features (proj_linear ?hs) = 256"
    by (auto simp: Hubert_init_def Linear_init_def)
  have fd: "\<not> training ?hd" "feature_extractor ?hd = FeatureExtractor_init ?w ?g"
    "feature_projection ?hd = ?fp" "positional_embedding ?hd = (\<lambda>x. x)"
    "norm_layer ?hd = (\<lambda>x. x)" "dropout ?hd = (\<lambda>x. x)"
    "\<forall>l \<in> set (encoder ?hd). l = (\<lambda>x m k. x)"
    "cluster_centers (kmeans ?hd) = [replicate 768 0, replicate 768 1]"
    by (auto simp: HubertDiscrete_init_def Hubert_init_def Hubert.extend_def
          HubertDiscrete.fields_def)
  have l2: "nat (spec_output_length (int 720)) = 2"
    by (simp add: spec_output_length_def conv_output_length_def)
  have l1: "nat (spec_output_length (int 400)) = 1"
    by (simp add: spec_output_length_def conv_output_length_def)
  have p2: "has_shape 1 1 720 (F_pad [[replicate 640 0]] (40, 40))"
    by (simp add: F_pad_def has_shape_def)
  have p1: "has_shape 1 1 400 (F_pad [[replicate 320 0]] (40, 40))"
    by (simp add: F_pad_def has_shape_def)
  have pb: "has_shape 2 1 720 (F_pad [[replicate 640 0], [replicate 640 0]] (40, 40))"
    by (simp add: F_pad_def has_shape_def)
  have es: "Hubert_encode ?hs 0.5 ?m (F_pad [[replicate 640 0]] (40, 40)) None
      = Inr (replicate 1 (replicate 2 (replicate 768 0)), None)"
    using zero_module_encode [OF p2 _ fs(1-7), of "0.5" ?m None] by (simp only: l2)
  have e2: "Hubert_encode ?hd 0.5 ?m (F_pad [[replicate 640 0]] (40, 40)) (Some 7)
      = Inr (replicate 1 (replicate 2 (replicate 768 0)), None)"
    using zero_module_encode [OF p2 _ fd(1-7), of "0.5" ?m "Some 7"] by (simp only: l2)
  have e1: "Hubert_encode ?hd 0.5 ?m (F_pad [[replicate 320 0]] (40, 40)) (Some 7)
      = Inr (replicate 1 (replicate 1 (replicate 768 0)), None)"
    using zero_module_encode [OF p1 _ fd(1-7), of "0.5" ?m "Some 7"] by (simp only: l1)
  have eb: "Hubert_encode ?hd 0.5 ?m (F_pad [[replicate 640 0], [replicate 640 0]] (40, 40))
        (Some 7)
      = Inr (replicate 2 (replicate 2 (replicate 768 0)), None)"
    using zero_module_encode [OF pb _ fd(1-7), of "0.5" ?m "Some 7"] by (simp only: l2)
  have s2: "has_shape 1 2 768 (replicate 1 (replicate 2 (replicate 768 (0::real))))"
    and s1: "has_shape 1 1 768 (replicate 1 (replicate 1 (replicate 768 (0::real))))"
    and sb: "has_shape 2 2 768 (replicate 2 (replicate 2 (replicate 768 (0::real))))"
    by (simp_all add: has_shape_def)
  let ?z2 = "replicate 1 (replicate 2 (replicate 768 (0::real)))"
  let ?z1 = "replicate 1 (replicate 1 (replicate 768 (0::real)))"
  let ?zb = "replicate 2 (replicate 2 (replicate 768 (0::real)))"
  have sz: "size1 (cluster_centers (kmeans ?hd)) = 768"
    unfolding fd(8) by (simp add: size1_def)
  have n1: "size1 (cluster_centers (kmeans ?hd)) \<noteq> 1"
    and ne: "cluster_centers (kmeans ?hd) \<noteq> []"
    unfolding fd(8) by (simp_all add: size1_def)
  have s2s: "has_shape 1 2 (in_features (proj_linear ?hs)) ?z2"
    unfolding fs(8) by (rule s2)
  have s2d: "has_shape 1 2 (size1 (cluster_centers (kmeans ?hd))) ?z2"
    unfolding sz by (rule s2)
  have two: "(2::nat) \<le> 2" and c768: "(768::nat) \<noteq> 1" by simp_all
  note th = unit_extractors [where u = "0.5" and multinomial = ?m and hs = ?hs and hdis = ?hd]
  have a1: "\<exists>units. HubertSoft_units ?hs 0.5 ?m [[replicate 640 0]] = Inr units
        \<and> has_shape 1 2 256 units"
  proof -
    note c = th [where wav = "[[replicate 640 0]]" and z = ?z2 and msk = None and b = 1
        and t = 2, THEN conjunct2, THEN conjunct1]
    from c es s2s obtain units where
      "HubertSoft_units ?hs 0.5 ?m [[replicate 640 0]] = Inr units"
      and "has_shape 1 2 (out_features (proj_linear ?hs)) units"
      by blast
    then show ?thesis unfolding fs(9) by blast
  qed
  have a2: "\<exists>ids. HubertDiscrete_units ?hd 0.5 ?m [[replicate 640 0]] = Inr ids \<and> length ids = 2"
  proof -
    note c = th [where wav = "[[replicate 640 0]]" and ?z7.0 = ?z2 and ?msk7.0 = None
        and t = 2, THEN conjunct2, THEN conjunct2, THEN conjunct1]
    from c e2 s2d two n1 ne show ?thesis by blast
  qed
  have a3: "HubertDiscrete_units ?hd 0.5 ?m [[replicate 320 0]]
        = Inl (ValueError ''Expected 2D array, got 1D array instead'')"
  proof -
    note c = th [where wav = "[[replicate 320 0]]" and ?z7.0 = ?z1 and ?msk7.0 = None
        and c = 768, THEN conjunct2, THEN conjunct2, THEN conjunct2, THEN conjunct1]
    from c e1 s1 c768 show ?thesis by blast
  qed
  have a4: "HubertDiscrete_units ?hd 0.5 ?m [[replicate 640 0], [replicate 640 0]]
        = Inl (ValueError ''Found array with dim 3. KMeans expected <= 2.'')"
  proof -
    note c = th [where wav = "[[replicate 640 0], [replicate 640 0]]" and ?z7.0 = ?zb
        and ?msk7.0 = None and c = 768 and b = 2 and t = 2, THEN conjunct2, THEN conjunct2,
        THEN conjunct2, THEN conjunct2]
    from c eb sb two c768 show ?thesis by blast
  qed
  from a1 a2 a3 a4 show ?thesis by blast
qed

text \<open>
  The failing input of \<open>HubertDiscrete.units\<close>: one waveform of 320 samples, in
  evaluation mode. Padded to 400 samples it gives one frame; \<open>encode\<close> returns a tensor
  of shape \<open>(1, 1, 768)\<close>, \<open>squeeze()\<close> leaves a vector of 768 numbers, and the cluster
  model raises ValueError instead of returning the frame's cluster id.
\<close>

theorem discrete_units_single_frame_failure:
  "nat (spec_output_length (int (40 + 320 + 40))) = 1
   \<and> HubertDiscrete_units
          ((HubertDiscrete_init \<lparr>cluster_centers = [replicate 768 0, replicate 768 1]\<rparr>
              (\<lambda>i out c j. 0)
              \<lparr>gn_weight = \<lambda>c. 1, gn_bias = \<lambda>c. 0, gn_eps = 1 / 100000\<rparr> (\<lambda>v. v)
              (map (map (\<lambda>v. replicate 768 0))) (\<lambda>x. x) (\<lambda>x. x) (\<lambda>x. x) (\<lambda>i x m k. x)
              (\<lambda>out i. 0) (\<lambda>out. 0) (\<lambda>i. 1))\<lparr>training := False\<rparr>)
          0.5 (\<lambda>b c n. replicate b [0]) [[replicate 320 0]]
        = Inl (ValueError ''Expected 2D array, got 1D array instead'')"
proof -
  let ?g = "\<lparr>gn_weight = \<lambda>c. 1, gn_bias = \<lambda>c. 0, gn_eps = 1 / 100000\<rparr>"
  let ?w = "\<lambda>(i::nat) (out::nat) (c::nat) (j::nat). 0::real"
  let ?fp = "map (map (\<lambda>v::real list. replicate 768 (0::real)))"
  let ?km = "\<lparr>cluster_centers = [replicate 768 0, replicate 768 1]\<rparr>"
  let ?hd = "(HubertDiscrete_init ?km ?w ?g (\<lambda>v. v) ?fp (\<lambda>x. x) (\<lambda>x. x) (\<lambda>x. x) (\<lambda>i x m k. x)
              (\<lambda>out i. 0) (\<lambda>out. 0) (\<lambda>i. 1))\<lparr>training := False\<rparr>"
  let ?m = "\<lambda>(b::nat) (c::nat) (n::int). replicate b [0::nat]"
  let ?z1 = "replicate 1 (replicate 1 (replicate 768 (0::real)))"
  have fd: "\<not> training ?hd" "feature_extractor ?hd = FeatureExtractor_init ?w ?g"
    "feature_projection ?hd = ?fp" "positional_embedding ?hd = (\<lambda>x. x)"
    "norm_layer ?hd = (\<lambda>x. x)" "dropout ?hd = (\<lambda>x. x)"
    "\<forall>l \<in> set (encoder ?hd). l = (\<lambda>x m k. x)"
    by (auto simp: HubertDiscrete_init_def Hubert_init_def Hubert.extend_def
          HubertDiscrete.fields_def)
  have l1: "nat (spec_output_length (int 400)) = 1"
    by (simp add: spec_output_length_def conv_output_length_def)
  have l1': "nat (spec_output_length (int (40 + 320 + 40))) = 1"
    using l1 by simp
  have p1: "has_shape 1 1 400 (F_pad [[replicate 320 0]] (40, 40))"
    by (simp add: F_pad_def has_shape_def)
  have e1: "Hubert_encode ?hd 0.5 ?m (F_pad [[replicate 320 0]] (40, 40)) (Some 7)
      = Inr (?z1, None)"
    using zero_module_encode [OF p1 _ fd, of "0.5" ?m "Some 7"] by (simp only: l1)
  have s1: "has_shape 1 1 768 ?z1"
    by (simp add: has_shape_def)
  have c768: "(768::nat) \<noteq> 1" by simp
  have "HubertDiscrete_units ?hd 0.5 ?m [[replicate 320 0]]
        = Inl (ValueError ''Expected 2D array, got 1D array instead'')"
    unfolding HubertDiscrete_units_unfold [OF e1] squeeze_single_frame [OF s1 c768]
    by (simp add: KMeans_predict_def)
  with l1' show ?thesis by blast
qed

end
